theory Spec2Isabelle
  imports Complex_Main "HOL-Library.Multiset"
begin

section \<open>JavaScript values of the script\<close>

text \<open>
  A JavaScript string is a sequence of UTF-16 code units. The error texts of the script
  are Cyrillic, so they are kept as code-unit lists; ASCII literals are written with
  \<open>asc\<close>.
\<close>

type_synonym jstring = "nat list"

definition asc :: "string \<Rightarrow> jstring" where
  "asc s = map of_char s"

text \<open>
  Numbers: a finite value is kept as a rational; the script never computes with a number,
  it only tests it against \<open>0\<close> and \<open>NaN\<close> and hands it on.
\<close>

datatype jsnum = NaN | PosInf | NegInf | Fin rat

text \<open>A Date object holds a time value in milliseconds, or is an Invalid Date.\<close>

datatype jsdate = Invalid | Time int

definition valid_date :: "jsdate \<Rightarrow> bool" where
  "valid_date d = (d \<noteq> Invalid)"

text \<open>Primitive values: what a cell of a JSON row, or an out-of-range read, can be.\<close>

datatype prim = Undefined | Null | Boolean bool | Number jsnum | String jstring

datatype jsval = Prim prim | DateObj jsdate

datatype exn_kind = URIError | TypeError | SyntaxError | HostError

datatype exn = Exn exn_kind jstring

fun message :: "exn \<Rightarrow> jstring" where
  "message (Exn k m) = m"

fun truthy :: "prim \<Rightarrow> bool" where
  "truthy Undefined = False"
| "truthy Null = False"
| "truthy (Boolean b) = b"
| "truthy (Number n) = (n \<noteq> NaN \<and> n \<noteq> Fin 0)"
| "truthy (String s) = (s \<noteq> [])"

fun nullish :: "prim \<Rightarrow> bool" where
  "nullish Undefined = True"
| "nullish Null = True"
| "nullish v = False"

text \<open>\<open>isNaN\<close> and \<open>!== 0\<close> on a number.\<close>

definition isNaN :: "jsnum \<Rightarrow> bool" where
  "isNaN n = (n = NaN)"

definition is_zero :: "jsnum \<Rightarrow> bool" where
  "is_zero n = (n = Fin 0)"

section \<open>The tabular API payload\<close>

text \<open>
  A block of the ISS answer: \<open>columns\<close> and \<open>data\<close>, either of which may be missing
  from the JSON object. A row is a list of primitive values.
\<close>

record block =
  columns :: "jstring list option"
  rows :: "prim list list option"

record doc =
  marketdata :: "block option"
  securities :: "block option"
  coupons :: "block option"
  amortizations :: "block option"
  offers :: "block option"

text \<open>
  The body of a response: text that \<open>JSON.parse\<close> rejects, the JSON value \<open>null\<close>
  (every property read of it throws), or an object with some of the blocks.
\<close>

datatype body = Malformed exn | JsonNull | JsonDoc doc

datatype fetch_outcome = FetchThrows exn | Response int body

datatype endpoint = SecuritiesEndpoint | BondizationEndpoint

type_synonym request = "endpoint \<times> jstring"

text \<open>
  Everything ambient a call reads: the engine's conversions between strings, numbers and
  dates, the order in which its sort leaves an array that holds an Invalid Date (given
  the dates of the array, the positions of its elements in their new order), the clock (\<open>today\<close> is \<open>new Date()\<close> after \<open>setHours(0, 0, 0, 0)\<close>), what
  \<open>UrlFetchApp.fetch\<close> answers for a ticker on each of the two endpoints, and whether
  the spreadsheet lets the running call set a note on the active range.
\<close>

record env =
  parseFloat_str :: "jstring \<Rightarrow> jsnum"
  Date_parse :: "jstring \<Rightarrow> jsdate"
  num_to_string :: "jsnum \<Rightarrow> jstring"
  engine_message :: "exn_kind \<Rightarrow> jstring"
  JSON_parse :: "jstring \<Rightarrow> exn + prim"
  JSON_stringify :: "jsval \<Rightarrow> jstring"
  sort_undated :: "jsdate list \<Rightarrow> nat list"
  today :: int
  fetch_securities :: "jstring \<Rightarrow> fetch_outcome"
  fetch_bondization :: "jstring \<Rightarrow> fetch_outcome"
  can_set_note :: bool

definition throw :: "env \<Rightarrow> exn_kind \<Rightarrow> exn + 'a" where
  "throw h k = Inl (Exn k (engine_message h k))"

text \<open>\<open>columns.indexOf(name)\<close>: the first position of the name, \<open>-1\<close> when absent.\<close>

fun indexOf :: "jstring list \<Rightarrow> jstring \<Rightarrow> int" where
  "indexOf [] name = -1"
| "indexOf (c # cs) name =
     (if c = name then 0 else (let i = indexOf cs name in if i = -1 then -1 else i + 1))"

text \<open>\<open>row[i]\<close>: \<open>undefined\<close> for \<open>-1\<close> and past the end.\<close>

definition cell_at :: "prim list \<Rightarrow> int \<Rightarrow> prim" where
  "cell_at row i = (if 0 \<le> i \<and> i < int (length row) then row ! nat i else Undefined)"

fun to_string :: "env \<Rightarrow> prim \<Rightarrow> jstring" where
  "to_string h Undefined = asc ''undefined''"
| "to_string h Null = asc ''null''"
| "to_string h (Boolean b) = (if b then asc ''true'' else asc ''false'')"
| "to_string h (Number n) = num_to_string h n"
| "to_string h (String s) = s"

fun parseFloat :: "env \<Rightarrow> prim \<Rightarrow> jsnum" where
  "parseFloat h (Number n) = n"
| "parseFloat h (String s) = parseFloat_str h s"
| "parseFloat h v = NaN"

definition trunc_rat :: "rat \<Rightarrow> int" where
  "trunc_rat r = (if 0 \<le> r then \<lfloor>r\<rfloor> else \<lceil>r\<rceil>)"

text \<open>\<open>new Date(v)\<close> for a primitive \<open>v\<close>.\<close>

fun new_Date :: "env \<Rightarrow> prim \<Rightarrow> jsdate" where
  "new_Date h (String s) = Date_parse h s"
| "new_Date h (Number (Fin r)) =
     (if \<bar>r\<bar> \<le> 8640000000000000 then Time (trunc_rat r) else Invalid)"
| "new_Date h (Number n) = Invalid"
| "new_Date h Null = Time 0"
| "new_Date h (Boolean b) = Time (if b then 1 else 0)"
| "new_Date h Undefined = Invalid"

text \<open>\<open>d >= today\<close> on Date objects: false for an Invalid Date.\<close>

fun on_or_after :: "int \<Rightarrow> jsdate \<Rightarrow> bool" where
  "on_or_after t Invalid = False"
| "on_or_after t (Time d) = (t \<le> d)"

text \<open>
  \<open>encodeURIComponent\<close> throws a URIError exactly on a string with an unpaired
  surrogate.
\<close>

fun uri_encodable :: "jstring \<Rightarrow> bool" where
  "uri_encodable [] = True"
| "uri_encodable [c] = (\<not> (55296 \<le> c \<and> c \<le> 57343))"
| "uri_encodable (c # d # cs) =
     (if 56320 \<le> c \<and> c \<le> 57343 then False
      else if 55296 \<le> c \<and> c \<le> 56319
        then 56320 \<le> d \<and> d \<le> 57343 \<and> uri_encodable cs
      else uri_encodable (d # cs))"

definition msg_api_error :: jstring where
  \<comment> \<open>the literal transliterated: "Oshibka API: "\<close>
  "msg_api_error = [1054, 1096, 1080, 1073, 1082, 1072, 32, 65, 80, 73, 58, 32]"

definition msg_incomplete :: jstring where
  \<comment> \<open>the literal transliterated: "Tiker ne najden ili API vernul nepolnye dannye"\<close>
  "msg_incomplete = [1058, 1080, 1082, 1077, 1088, 32, 1085, 1077, 32, 1085, 1072, 1081, 1076, 1077, 1085, 32, 1080, 1083, 1080, 32, 65, 80, 73, 32, 1074, 1077, 1088, 1085, 1091, 1083, 32, 1085, 1077, 1087, 1086, 1083, 1085, 1099, 1077, 32, 1076, 1072, 1085, 1085, 1099, 1077]"

definition msg_price_not_found :: jstring where
  \<comment> \<open>the literal transliterated: "Cena ne najdena"\<close>
  "msg_price_not_found = [1062, 1077, 1085, 1072, 32, 1085, 1077, 32, 1085, 1072, 1081, 1076, 1077, 1085, 1072]"

definition msg_script_error :: jstring where
  \<comment> \<open>the literal transliterated: "Oshibka skripta"\<close>
  "msg_script_error = [1054, 1096, 1080, 1073, 1082, 1072, 32, 1089, 1082, 1088, 1080, 1087, 1090, 1072]"

definition msg_script_error_colon :: jstring where
  \<comment> \<open>the literal transliterated: "Oshibka skripta: "\<close>
  "msg_script_error_colon = [1054, 1096, 1080, 1073, 1082, 1072, 32, 1089, 1082, 1088, 1080, 1087, 1090, 1072, 58, 32]"

definition msg_no_data :: jstring where
  \<comment> \<open>the literal transliterated: "Net dannyh"\<close>
  "msg_no_data = [1053, 1077, 1090, 32, 1076, 1072, 1085, 1085, 1099, 1093]"

definition msg_ticker_not_found :: jstring where
  \<comment> \<open>the literal transliterated: "Tiker ne najden"\<close>
  "msg_ticker_not_found = [1058, 1080, 1082, 1077, 1088, 32, 1085, 1077, 32, 1085, 1072, 1081, 1076, 1077, 1085]"

definition msg_nextcoupon_absent :: jstring where
  \<comment> \<open>the literal transliterated: "Pole NEXTCOUPON otsutstvuet"\<close>
  "msg_nextcoupon_absent = [1055, 1086, 1083, 1077, 32, 78, 69, 88, 84, 67, 79, 85, 80, 79, 78, 32, 1086, 1090, 1089, 1091, 1090, 1089, 1090, 1074, 1091, 1077, 1090]"

definition msg_no_upcoming_coupons :: jstring where
  \<comment> \<open>the literal transliterated: "Net predstojashhih kuponov"\<close>
  "msg_no_upcoming_coupons = [1053, 1077, 1090, 32, 1087, 1088, 1077, 1076, 1089, 1090, 1086, 1103, 1097, 1080, 1093, 32, 1082, 1091, 1087, 1086, 1085, 1086, 1074]"

definition msg_name_not_found :: jstring where
  \<comment> \<open>the literal transliterated: "Naimenovanie ne najdeno"\<close>
  "msg_name_not_found = [1053, 1072, 1080, 1084, 1077, 1085, 1086, 1074, 1072, 1085, 1080, 1077, 32, 1085, 1077, 32, 1085, 1072, 1081, 1076, 1077, 1085, 1086]"

definition msg_matdate_absent :: jstring where
  \<comment> \<open>the literal transliterated: "Pole MATDATE otsutstvuet"\<close>
  "msg_matdate_absent = [1055, 1086, 1083, 1077, 32, 77, 65, 84, 68, 65, 84, 69, 32, 1086, 1090, 1089, 1091, 1090, 1089, 1090, 1074, 1091, 1077, 1090]"

definition msg_maturity_undefined :: jstring where
  \<comment> \<open>the literal transliterated: "Data pogashenija ne opredelena"\<close>
  "msg_maturity_undefined = [1044, 1072, 1090, 1072, 32, 1087, 1086, 1075, 1072, 1096, 1077, 1085, 1080, 1103, 32, 1085, 1077, 32, 1086, 1087, 1088, 1077, 1076, 1077, 1083, 1077, 1085, 1072]"

definition msg_api_error_bondization :: jstring where
  \<comment> \<open>the literal transliterated: "Oshibka API (bondization): "\<close>
  "msg_api_error_bondization = [1054, 1096, 1080, 1073, 1082, 1072, 32, 65, 80, 73, 32, 40, 98, 111, 110, 100, 105, 122, 97, 116, 105, 111, 110, 41, 58, 32]"

definition msg_no_coupon_data :: jstring where
  \<comment> \<open>the literal transliterated: "Net dannyh o kuponah (bondization)"\<close>
  "msg_no_coupon_data = [1053, 1077, 1090, 32, 1076, 1072, 1085, 1085, 1099, 1093, 32, 1086, 32, 1082, 1091, 1087, 1086, 1085, 1072, 1093, 32, 40, 98, 111, 110, 100, 105, 122, 97, 116, 105, 111, 110, 41]"

definition msg_no_coupon_date :: jstring where
  \<comment> \<open>the literal transliterated: "Net daty kupona v dannyh"\<close>
  "msg_no_coupon_date = [1053, 1077, 1090, 32, 1076, 1072, 1090, 1099, 32, 1082, 1091, 1087, 1086, 1085, 1072, 32, 1074, 32, 1076, 1072, 1085, 1085, 1099, 1093]"

definition msg_coupon_undetermined :: jstring where
  \<comment> \<open>the literal transliterated: "Kupon ne opredelen"\<close>
  "msg_coupon_undetermined = [1050, 1091, 1087, 1086, 1085, 32, 1085, 1077, 32, 1086, 1087, 1088, 1077, 1076, 1077, 1083, 1077, 1085]"

definition msg_bondization_error :: jstring where
  \<comment> \<open>the literal transliterated: "Oshibka bondization: "\<close>
  "msg_bondization_error = [1054, 1096, 1080, 1073, 1082, 1072, 32, 98, 111, 110, 100, 105, 122, 97, 116, 105, 111, 110, 58, 32]"

definition msg_specify_ticker :: jstring where
  \<comment> \<open>the literal transliterated: "Ukazhite tiker"\<close>
  "msg_specify_ticker = [1059, 1082, 1072, 1078, 1080, 1090, 1077, 32, 1090, 1080, 1082, 1077, 1088]"

definition label_amortization :: jstring where
  \<comment> \<open>the literal transliterated: "Amortizacija"\<close>
  "label_amortization = [1040, 1084, 1086, 1088, 1090, 1080, 1079, 1072, 1094, 1080, 1103]"

definition label_offer :: jstring where
  \<comment> \<open>the literal transliterated: "Oferta"\<close>
  "label_offer = [1054, 1092, 1077, 1088, 1090, 1072]"

definition msg_no_events :: jstring where
  \<comment> \<open>the literal transliterated: "Net ofert/amort."\<close>
  "msg_no_events = [1053, 1077, 1090, 32, 1086, 1092, 1077, 1088, 1090, 47, 1072, 1084, 1086, 1088, 1090, 46]"

definition msg_nearest :: jstring where
  \<comment> \<open>the literal transliterated: "\n\nBlizhajshaja: "\<close>
  "msg_nearest = [10, 10, 1041, 1083, 1080, 1078, 1072, 1081, 1096, 1072, 1103, 58, 32]"

section \<open>The internal fetch functions\<close>

abbreviation Str :: "jstring \<Rightarrow> jsval" where
  "Str s \<equiv> Prim (String s)"

abbreviation Num :: "jsnum \<Rightarrow> jsval" where
  "Num n \<equiv> Prim (Number n)"

definition try_catch :: "exn + 'a \<Rightarrow> (exn \<Rightarrow> 'a) \<Rightarrow> 'a" where
  "try_catch r handler = (case r of Inl e \<Rightarrow> handler e | Inr v \<Rightarrow> v)"

text \<open>
  The common opening of every fetch function, inside its \<open>try\<close>: the fetch itself may
  throw, a status other than 200 returns the API error text, \<open>JSON.parse\<close> may throw, and
  the first property read of a \<open>null\<close> document throws a TypeError.
\<close>

definition with_doc ::
  "env \<Rightarrow> (jstring \<Rightarrow> 'a) \<Rightarrow> jstring \<Rightarrow> fetch_outcome \<Rightarrow> (doc \<Rightarrow> exn + 'a) \<Rightarrow> exn + 'a" where
  "with_doc h ret api_msg out k =
     (case out of
        FetchThrows e \<Rightarrow> Inl e
      | Response code b \<Rightarrow>
          if code \<noteq> 200 then Inr (ret (api_msg @ to_string h (Number (Fin (of_int code)))))
          else (case b of
                  Malformed e \<Rightarrow> Inl e
                | JsonNull \<Rightarrow> throw h TypeError
                | JsonDoc d \<Rightarrow> k d))"

text \<open>
  The test \<open>!data.securities || !data.securities.columns || !data.securities.data ||
  data.securities.data.length === 0\<close> of four of the functions, and the columns and
  first row they read when it passes.
\<close>

definition securities_row :: "doc \<Rightarrow> (jstring list \<times> prim list) option" where
  "securities_row d =
     (case securities d of
        None \<Rightarrow> None
      | Some b \<Rightarrow>
          (case columns b of
             None \<Rightarrow> None
           | Some cols \<Rightarrow>
               (case rows b of
                  None \<Rightarrow> None
                | Some [] \<Rightarrow> None
                | Some (r # rs) \<Rightarrow> Some (cols, r))))"

subsection \<open>Price\<close>

text \<open>
  The chain \<open>a ?? b ?? c ?? d\<close>: an operand is evaluated only when all before it are
  null or undefined, and \<open>columns.indexOf\<close> throws when the block has no \<open>columns\<close>.
\<close>

definition price_chain ::
  "env \<Rightarrow> jstring list option \<Rightarrow> prim list \<Rightarrow> jstring list option \<Rightarrow> prim list \<Rightarrow> exn + prim" where
  "price_chain h marketdataColumns marketdataRow securitiesColumns securitiesRow =
     (case marketdataColumns of
        None \<Rightarrow> throw h TypeError
      | Some mc \<Rightarrow>
          if \<not> nullish (cell_at marketdataRow (indexOf mc (asc ''LAST'')))
            then Inr (cell_at marketdataRow (indexOf mc (asc ''LAST'')))
          else if \<not> nullish (cell_at marketdataRow (indexOf mc (asc ''CLOSEPRICE'')))
            then Inr (cell_at marketdataRow (indexOf mc (asc ''CLOSEPRICE'')))
          else (case securitiesColumns of
                  None \<Rightarrow> throw h TypeError
                | Some sc \<Rightarrow>
                    if \<not> nullish (cell_at securitiesRow (indexOf sc (asc ''PREVLEGALCLOSEPRICE'')))
                      then Inr (cell_at securitiesRow (indexOf sc (asc ''PREVLEGALCLOSEPRICE'')))
                    else Inr (cell_at securitiesRow (indexOf sc (asc ''PREVPRICE'')))))"

definition price_of_doc :: "env \<Rightarrow> doc \<Rightarrow> exn + jsval" where
  "price_of_doc h d =
     (case (marketdata d, securities d) of
        (Some md, Some sec) \<Rightarrow>
          (case (rows md, rows sec) of
             (Some (marketdataRow # mrs), Some (securitiesRow # srs)) \<Rightarrow>
               (case price_chain h (columns md) marketdataRow (columns sec) securitiesRow of
                  Inl e \<Rightarrow> Inl e
                | Inr price \<Rightarrow>
                    if price = Null \<or> price = Undefined then Inr (Str msg_price_not_found)
                    else Inr (Num (parseFloat h price)))
           | _ \<Rightarrow> Inr (Str msg_incomplete))
      | _ \<Rightarrow> Inr (Str msg_incomplete))"

text \<open>
  A fetch function returns the requests it issued and either the exception that left it
  or its value. The URL is built before the \<open>try\<close>, so the URIError of
  \<open>encodeURIComponent\<close> is not caught.
\<close>

definition fetchSinglePriceInternal :: "env \<Rightarrow> jstring \<Rightarrow> request list \<times> (exn + jsval)" where
  "fetchSinglePriceInternal h ticker =
     (if \<not> uri_encodable ticker then ([], throw h URIError)
      else ([(SecuritiesEndpoint, ticker)],
            Inr (try_catch
                   (with_doc h Str msg_api_error (fetch_securities h ticker) (price_of_doc h))
                   (\<lambda>e. Str msg_script_error))))"

subsection \<open>Next coupon date, maturity date\<close>

definition date_of_doc :: "env \<Rightarrow> jstring \<Rightarrow> jstring \<Rightarrow> jstring \<Rightarrow> doc \<Rightarrow> exn + jsval" where
  "date_of_doc h column absent_msg unavailable_msg d =
     (case securities_row d of
        None \<Rightarrow> Inr (Str msg_ticker_not_found)
      | Some (cols, row) \<Rightarrow>
          if indexOf cols column = -1 then Inr (Str absent_msg)
          else if \<not> truthy (cell_at row (indexOf cols column))
                  \<or> cell_at row (indexOf cols column) = String (asc ''0000-00-00'')
            then Inr (Str unavailable_msg)
          else Inr (DateObj (new_Date h (cell_at row (indexOf cols column)))))"

definition fetchNextCouponInternal :: "env \<Rightarrow> jstring \<Rightarrow> request list \<times> (exn + jsval)" where
  "fetchNextCouponInternal h ticker =
     (if \<not> uri_encodable ticker then ([], throw h URIError)
      else ([(SecuritiesEndpoint, ticker)],
            Inr (try_catch
                   (with_doc h Str msg_api_error (fetch_securities h ticker)
                      (date_of_doc h (asc ''NEXTCOUPON'') msg_nextcoupon_absent
                         msg_no_upcoming_coupons))
                   (\<lambda>e. Str msg_script_error))))"

definition fetchMaturityDateInternal :: "env \<Rightarrow> jstring \<Rightarrow> request list \<times> (exn + jsval)" where
  "fetchMaturityDateInternal h ticker =
     (if \<not> uri_encodable ticker then ([], throw h URIError)
      else ([(SecuritiesEndpoint, ticker)],
            Inr (try_catch
                   (with_doc h Str msg_api_error (fetch_securities h ticker)
                      (date_of_doc h (asc ''MATDATE'') msg_matdate_absent
                         msg_maturity_undefined))
                   (\<lambda>e. Str msg_script_error))))"

subsection \<open>Name\<close>

definition name_of_doc :: "env \<Rightarrow> doc \<Rightarrow> exn + prim" where
  "name_of_doc h d =
     (case securities_row d of
        None \<Rightarrow> Inr (String msg_ticker_not_found)
      | Some (cols, row) \<Rightarrow>
          (let secNameIndex = indexOf cols (asc ''SECNAME'');
               shortNameIndex = indexOf cols (asc ''SHORTNAME'');
               name1 = (if secNameIndex \<noteq> -1 then cell_at row secNameIndex else Null);
               name2 = (if \<not> truthy name1 \<and> shortNameIndex \<noteq> -1
                        then cell_at row shortNameIndex else name1)
           in if \<not> truthy name2 then Inr (String msg_name_not_found) else Inr name2))"

definition fetchBondNameInternal :: "env \<Rightarrow> jstring \<Rightarrow> request list \<times> (exn + prim)" where
  "fetchBondNameInternal h ticker =
     (if \<not> uri_encodable ticker then ([], throw h URIError)
      else ([(SecuritiesEndpoint, ticker)],
            Inr (try_catch
                   (with_doc h String msg_api_error (fetch_securities h ticker) (name_of_doc h))
                   (\<lambda>e. String msg_script_error))))"

subsection \<open>\<open>Array.prototype.sort\<close> with the comparator \<open>(a, b) => a.date - b.date\<close>\<close>

text \<open>
  When every date of the array is valid the comparator is consistent, and the sort, which
  is stable, has one possible result: it is modelled by insertion, an element going in
  front of the first one it does not compare greater than. The difference of two dates is
  \<open>NaN\<close> when one is invalid (the sort reads it as \<open>+0\<close>); with such a date in the
  array the comparator is inconsistent and ECMAScript leaves the order to the engine:
  the model takes it from the environment, and claims no order of its own. An array of
  fewer than two elements is never reordered.
\<close>

fun date_minus :: "jsdate \<Rightarrow> jsdate \<Rightarrow> int option" where
  "date_minus (Time a) (Time b) = Some (a - b)"
| "date_minus a b = None"

definition sort_compare :: "jsdate \<Rightarrow> jsdate \<Rightarrow> int" where
  "sort_compare a b = (case date_minus a b of None \<Rightarrow> 0 | Some v \<Rightarrow> v)"

fun insert_by_date :: "('a \<Rightarrow> jsdate) \<Rightarrow> 'a \<Rightarrow> 'a list \<Rightarrow> 'a list" where
  "insert_by_date f x [] = [x]"
| "insert_by_date f x (y # ys) =
     (if sort_compare (f x) (f y) \<le> 0 then x # y # ys else y # insert_by_date f x ys)"

text \<open>The elements at the given positions, in the order given.\<close>

definition reorder :: "'a list \<Rightarrow> nat list \<Rightarrow> 'a list" where
  "reorder xs order =
     List.map_filter (\<lambda>i. if i < length xs then Some (xs ! i) else None) order"

definition sort_by_date :: "env \<Rightarrow> ('a \<Rightarrow> jsdate) \<Rightarrow> 'a list \<Rightarrow> 'a list" where
  "sort_by_date h f xs =
     (if list_all (\<lambda>x. valid_date (f x)) xs then foldr (insert_by_date f) xs []
      else if length xs < 2 then xs
      else reorder xs (sort_undated h (map f xs)))"

subsection \<open>Coupon value\<close>

record coupon =
  c_date :: jsdate
  c_value :: "jsnum option"

text \<open>The \<open>map\<close> callback: \<open>value_rub\<close> before \<open>value\<close>, \<open>null\<close> when neither.\<close>

definition coupon_of_row :: "env \<Rightarrow> int \<Rightarrow> int \<Rightarrow> int \<Rightarrow> prim list \<Rightarrow> coupon" where
  "coupon_of_row h dateIdx valueIdx valueRubIdx r =
     (let v = (if valueRubIdx \<noteq> -1 \<and> cell_at r valueRubIdx \<noteq> Null then cell_at r valueRubIdx
               else if valueIdx \<noteq> -1 \<and> cell_at r valueIdx \<noteq> Null then cell_at r valueIdx
               else Null)
      in \<lparr>c_date = new_Date h (cell_at r dateIdx),
          c_value = (if v \<noteq> Null then Some (parseFloat h v) else None)\<rparr>)"

text \<open>\<open>c.value !== null && !isNaN(c.value) && c.value !== 0\<close>\<close>

fun usable :: "jsnum option \<Rightarrow> bool" where
  "usable None = False"
| "usable (Some n) = (\<not> isNaN n \<and> \<not> is_zero n)"

text \<open>What follows the loop: the remembered value, or the error text.\<close>

fun after_loop :: "jsnum option \<Rightarrow> jsval" where
  "after_loop (Some v) = Num v"
| "after_loop None = Str msg_coupon_undetermined"

text \<open>The \<open>for\<close> loop over the sorted coupons, with \<open>lastKnownValue\<close> as accumulator.\<close>

fun scan :: "int \<Rightarrow> coupon list \<Rightarrow> jsnum option \<Rightarrow> jsval" where
  "scan t [] lastKnownValue = after_loop lastKnownValue"
| "scan t (c # cs) lastKnownValue =
     (if on_or_after t (c_date c)
      then (if usable (c_value c) then Num (the (c_value c)) else after_loop lastKnownValue)
      else scan t cs (if usable (c_value c) then c_value c else lastKnownValue))"

definition coupon_of_doc :: "env \<Rightarrow> doc \<Rightarrow> exn + jsval" where
  "coupon_of_doc h d =
     (case coupons d of
        None \<Rightarrow> Inr (Str msg_no_coupon_data)
      | Some b \<Rightarrow>
          (case (rows b, columns b) of
             (Some rs, Some cols) \<Rightarrow>
               (let dateIdx = indexOf cols (asc ''coupondate'');
                    valueIdx = indexOf cols (asc ''value'');
                    valueRubIdx = indexOf cols (asc ''value_rub'')
                in if dateIdx = -1 then Inr (Str msg_no_coupon_date)
                   else Inr (scan (today h)
                               (sort_by_date h c_date
                                  (map (coupon_of_row h dateIdx valueIdx valueRubIdx) rs))
                               None))
           | _ \<Rightarrow> Inr (Str msg_no_coupon_data)))"

definition fetchCouponFromBondization :: "env \<Rightarrow> jstring \<Rightarrow> request list \<times> (exn + jsval)" where
  "fetchCouponFromBondization h ticker =
     (if \<not> uri_encodable ticker then ([], throw h URIError)
      else ([(BondizationEndpoint, ticker)],
            Inr (try_catch
                   (with_doc h Str msg_api_error_bondization (fetch_bondization h ticker)
                      (coupon_of_doc h))
                   (\<lambda>e. Str (msg_bondization_error @ message e)))))"

text \<open>
  Stage 1 on the \<open>securities\<close> block: \<open>Some v\<close> is a \<open>return v\<close>, \<open>None\<close> falls through
  to the call of \<open>fetchCouponFromBondization\<close>.
\<close>

definition coupon_stage1 :: "env \<Rightarrow> doc \<Rightarrow> exn + jsval option" where
  "coupon_stage1 h d =
     (case securities_row d of
        None \<Rightarrow> Inr (Some (Str msg_ticker_not_found))
      | Some (cols, row) \<Rightarrow>
          (let couponValueIndex = indexOf cols (asc ''COUPONVALUE'')
           in if couponValueIndex \<noteq> -1
                 \<and> cell_at row couponValueIndex \<noteq> Null
                 \<and> cell_at row couponValueIndex \<noteq> Undefined
                 \<and> \<not> is_zero (parseFloat h (cell_at row couponValueIndex))
              then Inr (Some (Num (parseFloat h (cell_at row couponValueIndex))))
              else Inr None))"

definition fetchCouponValueInternal :: "env \<Rightarrow> jstring \<Rightarrow> request list \<times> (exn + jsval)" where
  "fetchCouponValueInternal h ticker =
     (if \<not> uri_encodable ticker then ([], throw h URIError)
      else (case with_doc h (\<lambda>s. Some (Str s)) msg_api_error (fetch_securities h ticker)
                   (coupon_stage1 h) of
              Inl e \<Rightarrow>
                ([(SecuritiesEndpoint, ticker)], Inr (Str (msg_script_error_colon @ message e)))
            | Inr (Some v) \<Rightarrow> ([(SecuritiesEndpoint, ticker)], Inr v)
            | Inr None \<Rightarrow>
                (case fetchCouponFromBondization h ticker of
                   (rs, r) \<Rightarrow>
                     ((SecuritiesEndpoint, ticker) # rs,
                      Inr (try_catch r (\<lambda>e. Str (msg_script_error_colon @ message e)))))))"

subsection \<open>Nearest offer or amortization\<close>

record event =
  e_date :: jsdate
  e_type :: prim
  e_description :: jstring

datatype option_result = OptError jstring | OptDates jsdate jstring

definition amort_event :: "env \<Rightarrow> int \<Rightarrow> prim list \<Rightarrow> event option" where
  "amort_event h dateIdx row =
     (let dStr = cell_at row dateIdx
      in if truthy dStr \<and> on_or_after (today h) (new_Date h dStr)
         then Some \<lparr>e_date = new_Date h dStr,
                    e_type = String label_amortization,
                    e_description = label_amortization @ asc '': '' @ to_string h dStr\<rparr>
         else None)"

definition offer_event :: "env \<Rightarrow> int \<Rightarrow> int \<Rightarrow> prim list \<Rightarrow> event option" where
  "offer_event h dateIdx typeIdx row =
     (let dStr = cell_at row dateIdx;
          ty = (if typeIdx \<noteq> -1 \<and> truthy (cell_at row typeIdx) then cell_at row typeIdx
                else String label_offer)
      in if truthy dStr \<and> on_or_after (today h) (new_Date h dStr)
         then Some \<lparr>e_date = new_Date h dStr,
                    e_type = ty,
                    e_description = to_string h ty @ asc '': '' @ to_string h dStr\<rparr>
         else None)"

definition amort_events :: "env \<Rightarrow> block option \<Rightarrow> event list" where
  "amort_events h blk =
     (case blk of
        None \<Rightarrow> []
      | Some b \<Rightarrow>
          (case (columns b, rows b) of
             (Some cols, Some rs) \<Rightarrow>
               (if indexOf cols (asc ''amortdate'') \<noteq> -1
                then List.map_filter (amort_event h (indexOf cols (asc ''amortdate''))) rs
                else [])
           | _ \<Rightarrow> []))"

definition offer_events :: "env \<Rightarrow> block option \<Rightarrow> event list" where
  "offer_events h blk =
     (case blk of
        None \<Rightarrow> []
      | Some b \<Rightarrow>
          (case (columns b, rows b) of
             (Some cols, Some rs) \<Rightarrow>
               (if indexOf cols (asc ''offerdate'') \<noteq> -1
                then List.map_filter
                       (offer_event h (indexOf cols (asc ''offerdate''))
                          (indexOf cols (asc ''offertype''))) rs
                else [])
           | _ \<Rightarrow> []))"

text \<open>\<open>[...new Set(xs)]\<close>: the first occurrence of each element, in order.\<close>

fun unique_from :: "'a list \<Rightarrow> 'a list \<Rightarrow> 'a list" where
  "unique_from seen [] = []"
| "unique_from seen (x # xs) =
     (if x \<in> set seen then unique_from seen xs else x # unique_from (x # seen) xs)"

definition unique :: "'a list \<Rightarrow> 'a list" where
  "unique xs = unique_from [] xs"

fun join :: "jstring \<Rightarrow> jstring list \<Rightarrow> jstring" where
  "join sep [] = []"
| "join sep [x] = x"
| "join sep (x # y # ys) = x @ sep @ join sep (y # ys)"

definition options_of_doc :: "env \<Rightarrow> doc \<Rightarrow> exn + option_result" where
  "options_of_doc h d =
     (let events = amort_events h (amortizations d) @ offer_events h (offers d)
      in if length events = 0 then Inr (OptError msg_no_events)
         else (let sorted_events = sort_by_date h e_date events;
                   nearest = hd sorted_events;
                   uniqueDescriptions = unique (map e_description sorted_events);
                   noteText = join [10] uniqueDescriptions @ msg_nearest @ e_description nearest
               in Inr (OptDates (e_date nearest) noteText)))"

definition fetchBondOptionDatesInternal ::
  "env \<Rightarrow> jstring \<Rightarrow> request list \<times> (exn + option_result)" where
  "fetchBondOptionDatesInternal h ticker =
     (if \<not> uri_encodable ticker then ([], throw h URIError)
      else ([(BondizationEndpoint, ticker)],
            Inr (try_catch
                   (with_doc h OptError msg_api_error (fetch_bondization h ticker)
                      (options_of_doc h))
                   (\<lambda>e. OptError (msg_script_error_colon @ message e)))))"

section \<open>The exposed lookup functions\<close>

text \<open>
  \<open>String.prototype.trim\<close> removes white space and line terminators from both ends.
\<close>

definition is_ws :: "nat \<Rightarrow> bool" where
  "is_ws c = (c \<in> {9, 10, 11, 12, 13, 32, 160, 5760, 8232, 8233, 8239, 8287, 12288, 65279}
              \<or> (8192 \<le> c \<and> c \<le> 8202))"

definition trim :: "jstring \<Rightarrow> jstring" where
  "trim s = rev (dropWhile is_ws (rev (dropWhile is_ws s)))"

text \<open>\<open>!ticker || ticker.trim() === ''\<close> on a string.\<close>

definition blank :: "jstring \<Rightarrow> bool" where
  "blank ticker = (ticker = [] \<or> trim ticker = [])"

text \<open>
  The script cache maps a key to the text stored under it; an entry that has expired is
  an entry that is not there. A call leaves behind what it returned or threw, the cache,
  the note of the active range, and the requests it issued.
\<close>

type_synonym cache = "jstring \<rightharpoonup> jstring"

record run =
  returned :: "exn + jsval"
  cache_after :: cache
  note_after :: "jstring option"
  requests :: "request list"

definition GET_MOEX_PRICE :: "env \<Rightarrow> cache \<Rightarrow> jstring option \<Rightarrow> jstring \<Rightarrow> run" where
  "GET_MOEX_PRICE h c n ticker =
     (if blank ticker
      then \<lparr>returned = Inr (Prim Null), cache_after = c, note_after = n, requests = []\<rparr>
      else (case c ticker of
              Some cached \<Rightarrow>
                \<lparr>returned = map_sum id Prim (JSON_parse h cached),
                 cache_after = c, note_after = n, requests = []\<rparr>
            | None \<Rightarrow>
                (case fetchSinglePriceInternal h ticker of
                   (rs, Inl e) \<Rightarrow>
                     \<lparr>returned = Inl e, cache_after = c, note_after = n, requests = rs\<rparr>
                 | (rs, Inr result) \<Rightarrow>
                     \<lparr>returned = Inr result,
                      cache_after = c(ticker \<mapsto> JSON_stringify h result),
                      note_after = n, requests = rs\<rparr>)))"

text \<open>
  The cache-hit branch shared by \<open>GET_NEXT_COUPON\<close> and \<open>GET_MATURITY_DATE\<close>:
  \<open>cachedValue ? new Date(cachedValue) : 'Net dannyh'\<close>.
\<close>

definition date_from_cache :: "env \<Rightarrow> jstring \<Rightarrow> exn + jsval" where
  "date_from_cache h cached =
     (case JSON_parse h cached of
        Inl e \<Rightarrow> Inl e
      | Inr cachedValue \<Rightarrow>
          if truthy cachedValue then Inr (DateObj (new_Date h cachedValue))
          else Inr (Str msg_no_data))"

definition GET_NEXT_COUPON :: "env \<Rightarrow> cache \<Rightarrow> jstring option \<Rightarrow> jstring \<Rightarrow> run" where
  "GET_NEXT_COUPON h c n ticker =
     (if blank ticker
      then \<lparr>returned = Inr (Prim Null), cache_after = c, note_after = n, requests = []\<rparr>
      else (case c (ticker @ asc ''_coupon'') of
              Some cached \<Rightarrow>
                \<lparr>returned = date_from_cache h cached,
                 cache_after = c, note_after = n, requests = []\<rparr>
            | None \<Rightarrow>
                (case fetchNextCouponInternal h ticker of
                   (rs, Inl e) \<Rightarrow>
                     \<lparr>returned = Inl e, cache_after = c, note_after = n, requests = rs\<rparr>
                 | (rs, Inr result) \<Rightarrow>
                     \<lparr>returned = Inr result,
                      cache_after = c(ticker @ asc ''_coupon'' \<mapsto> JSON_stringify h result),
                      note_after = n, requests = rs\<rparr>)))"

text \<open>
  \<open>GET_MOEX_NAME\<close> stores and returns the text itself, with no JSON around it (a name
  that is not a string is stored as its string conversion).
\<close>

definition GET_MOEX_NAME :: "env \<Rightarrow> cache \<Rightarrow> jstring option \<Rightarrow> jstring \<Rightarrow> run" where
  "GET_MOEX_NAME h c n ticker =
     (if blank ticker
      then \<lparr>returned = Inr (Prim Null), cache_after = c, note_after = n, requests = []\<rparr>
      else (case c (ticker @ asc ''_name'') of
              Some cached \<Rightarrow>
                \<lparr>returned = Inr (Str cached), cache_after = c, note_after = n, requests = []\<rparr>
            | None \<Rightarrow>
                (case fetchBondNameInternal h ticker of
                   (rs, Inl e) \<Rightarrow>
                     \<lparr>returned = Inl e, cache_after = c, note_after = n, requests = rs\<rparr>
                 | (rs, Inr result) \<Rightarrow>
                     \<lparr>returned = Inr (Prim result),
                      cache_after = c(ticker @ asc ''_name'' \<mapsto> to_string h result),
                      note_after = n, requests = rs\<rparr>)))"

definition GET_COUPON_VALUE :: "env \<Rightarrow> cache \<Rightarrow> jstring option \<Rightarrow> jstring \<Rightarrow> run" where
  "GET_COUPON_VALUE h c n ticker =
     (if blank ticker
      then \<lparr>returned = Inr (Prim Null), cache_after = c, note_after = n, requests = []\<rparr>
      else (case c (ticker @ asc ''_coupon_value_v3'') of
              Some cached \<Rightarrow>
                \<lparr>returned = map_sum id Prim (JSON_parse h cached),
                 cache_after = c, note_after = n, requests = []\<rparr>
            | None \<Rightarrow>
                (case fetchCouponValueInternal h ticker of
                   (rs, Inl e) \<Rightarrow>
                     \<lparr>returned = Inl e, cache_after = c, note_after = n, requests = rs\<rparr>
                 | (rs, Inr result) \<Rightarrow>
                     \<lparr>returned = Inr result,
                      cache_after =
                        c(ticker @ asc ''_coupon_value_v3'' \<mapsto> JSON_stringify h result),
                      note_after = n, requests = rs\<rparr>)))"

definition GET_MATURITY_DATE :: "env \<Rightarrow> cache \<Rightarrow> jstring option \<Rightarrow> jstring \<Rightarrow> run" where
  "GET_MATURITY_DATE h c n ticker =
     (if blank ticker
      then \<lparr>returned = Inr (Prim Null), cache_after = c, note_after = n, requests = []\<rparr>
      else (case c (ticker @ asc ''_maturity'') of
              Some cached \<Rightarrow>
                \<lparr>returned = date_from_cache h cached,
                 cache_after = c, note_after = n, requests = []\<rparr>
            | None \<Rightarrow>
                (case fetchMaturityDateInternal h ticker of
                   (rs, Inl e) \<Rightarrow>
                     \<lparr>returned = Inl e, cache_after = c, note_after = n, requests = rs\<rparr>
                 | (rs, Inr result) \<Rightarrow>
                     \<lparr>returned = Inr result,
                      cache_after = c(ticker @ asc ''_maturity'' \<mapsto> JSON_stringify h result),
                      note_after = n, requests = rs\<rparr>)))"

text \<open>
  \<open>GET_NEAREST_OPTION_DATE\<close> tests \<open>!ticker\<close> only, has no cache, and tries to set
  the note; a failure to set it is swallowed.
\<close>

definition GET_NEAREST_OPTION_DATE :: "env \<Rightarrow> cache \<Rightarrow> jstring option \<Rightarrow> jstring \<Rightarrow> run" where
  "GET_NEAREST_OPTION_DATE h c n ticker =
     (if ticker = []
      then \<lparr>returned = Inr (Str msg_specify_ticker), cache_after = c, note_after = n,
            requests = []\<rparr>
      else (case fetchBondOptionDatesInternal h ticker of
              (rs, Inl e) \<Rightarrow>
                \<lparr>returned = Inl e, cache_after = c, note_after = n, requests = rs\<rparr>
            | (rs, Inr (OptError msg)) \<Rightarrow>
                \<lparr>returned = Inr (Str msg), cache_after = c, note_after = n, requests = rs\<rparr>
            | (rs, Inr (OptDates d noteText)) \<Rightarrow>
                \<lparr>returned = Inr (DateObj d), cache_after = c,
                 note_after = (if can_set_note h then Some noteText else n),
                 requests = rs\<rparr>))"

section \<open>The coupon schedule scan as the specification words it\<close>

fun time_of :: "jsdate \<Rightarrow> int" where
  "time_of (Time t) = t"
| "time_of Invalid = 0"

fun strictly_before :: "int \<Rightarrow> jsdate \<Rightarrow> bool" where
  "strictly_before t Invalid = False"
| "strictly_before t (Time d) = (d < t)"

text \<open>
  The remembered value: that of the most recent record strictly before today whose value
  is usable, if there is one.
\<close>

definition remembered_from :: "jsnum option \<Rightarrow> int \<Rightarrow> coupon list \<Rightarrow> jsnum option" where
  "remembered_from start t past =
     (case rev (filter (\<lambda>c. strictly_before t (c_date c) \<and> usable (c_value c)) past) of
        [] \<Rightarrow> start
      | c # earlier \<Rightarrow> c_value c)"

definition remembered :: "int \<Rightarrow> coupon list \<Rightarrow> jsnum option" where
  "remembered t past = remembered_from None t past"

text \<open>
  At the first record on or after today (the head of \<open>from_today\<close>): its value when
  usable, else the remembered value or the error text; the same when there is no such
  record. The tail of \<open>from_today\<close> is not looked at.
\<close>

definition at_stop :: "coupon list \<Rightarrow> jsnum option \<Rightarrow> jsval" where
  "at_stop from_today last_known =
     (case from_today of
        [] \<Rightarrow> after_loop last_known
      | c # later \<Rightarrow>
          if usable (c_value c) then Num (the (c_value c)) else after_loop last_known)"

definition spec_scan :: "int \<Rightarrow> coupon list \<Rightarrow> jsval" where
  "spec_scan t cs =
     at_stop (dropWhile (\<lambda>c. \<not> on_or_after t (c_date c)) cs)
       (remembered t (takeWhile (\<lambda>c. \<not> on_or_after t (c_date c)) cs))"

text \<open>
  The value the loop itself remembers: that of the last examined record with a usable
  value, whatever its date.
\<close>

definition last_usable :: "jsnum option \<Rightarrow> coupon list \<Rightarrow> jsnum option" where
  "last_usable start examined =
     (case rev (filter (\<lambda>c. usable (c_value c)) examined) of
        [] \<Rightarrow> start
      | c # earlier \<Rightarrow> c_value c)"

text \<open>The date-ascending record sequence of a coupons block.\<close>

definition coupon_records :: "env \<Rightarrow> jstring list \<Rightarrow> prim list list \<Rightarrow> coupon list" where
  "coupon_records h cols rs =
     sort_key (\<lambda>c. time_of (c_date c))
       (map (coupon_of_row h (indexOf cols (asc ''coupondate'')) (indexOf cols (asc ''value''))
               (indexOf cols (asc ''value_rub''))) rs)"

section \<open>Reading a cell by column name\<close>

text \<open>
  The value of a row under a column name: \<open>undefined\<close> when the block has no such
  column, which is not the same as a column holding \<open>null\<close>.
\<close>

definition field :: "jstring list \<Rightarrow> prim list \<Rightarrow> jstring \<Rightarrow> prim" where
  "field cols row name = cell_at row (indexOf cols name)"

section \<open>The price fallback as the specification words it\<close>

definition first_present :: "prim list \<Rightarrow> prim option" where
  "first_present vs = List.find (\<lambda>v. \<not> nullish v) vs"

definition spec_price ::
  "env \<Rightarrow> jstring list \<Rightarrow> prim list \<Rightarrow> jstring list \<Rightarrow> prim list \<Rightarrow> jsval" where
  "spec_price h mc mrow sc srow =
     (case first_present
             [field mc mrow (asc ''LAST''), field mc mrow (asc ''CLOSEPRICE''),
              field sc srow (asc ''PREVLEGALCLOSEPRICE''), field sc srow (asc ''PREVPRICE'')] of
        None \<Rightarrow> Str msg_price_not_found
      | Some v \<Rightarrow> Num (parseFloat h v))"

section \<open>Date cells that stand for no date\<close>

text \<open>
  Null or empty in the sense of the script's test \<open>!value\<close> (\<open>null\<close>, \<open>undefined\<close>,
  the empty string, and the other falsy values \<open>0\<close>, \<open>NaN\<close>, \<open>false\<close>), or the
  literal \<open>0000-00-00\<close>.
\<close>

definition unavailable :: "prim \<Rightarrow> bool" where
  "unavailable v = (\<not> truthy v \<or> v = String (asc ''0000-00-00''))"

section \<open>What a lookup leaves behind\<close>

text \<open>A call that returns \<open>v\<close> and touches nothing: no request, the cache as it was.\<close>

definition quiet :: "jsval \<Rightarrow> cache \<Rightarrow> jstring option \<Rightarrow> run" where
  "quiet v c n = \<lparr>returned = Inr v, cache_after = c, note_after = n, requests = []\<rparr>"

text \<open>
  A lookup that goes through the cache under \<open>key\<close>: on a hit the result is read off
  the cached text alone, with no request and the cache unchanged; on a miss the resolver
  runs, and the value it returns is stored under the key, serialized, and returned. (An
  exception leaving the resolver leaves the lookup, with nothing stored.)
\<close>

definition through_cache ::
  "run \<Rightarrow> cache \<Rightarrow> jstring option \<Rightarrow> jstring \<Rightarrow> (jstring \<Rightarrow> exn + jsval) \<Rightarrow>
   request list \<times> (exn + jsval) \<Rightarrow> (jsval \<Rightarrow> jstring) \<Rightarrow> bool" where
  "through_cache r c n key on_hit resolved serialize =
     (case c key of
        Some text \<Rightarrow>
          r = \<lparr>returned = on_hit text, cache_after = c, note_after = n, requests = []\<rparr>
      | None \<Rightarrow>
          (case snd resolved of
             Inr v \<Rightarrow>
               r = \<lparr>returned = Inr v, cache_after = c(key \<mapsto> serialize v), note_after = n,
                    requests = fst resolved\<rparr>
           | Inl e \<Rightarrow>
               r = \<lparr>returned = Inl e, cache_after = c, note_after = n,
                    requests = fst resolved\<rparr>))"

text \<open>What \<open>GET_MOEX_NAME\<close> stores: the text itself.\<close>

fun raw_text :: "env \<Rightarrow> jsval \<Rightarrow> jstring" where
  "raw_text h (Prim p) = to_string h p"
| "raw_text h (DateObj d) = []"

section \<open>What a result may depend on\<close>

text \<open>
  Two environments with the same engine (the conversions and the sort of the language,
  which are no state), and with the same answers of the API for one ticker.
\<close>

definition same_engine :: "env \<Rightarrow> env \<Rightarrow> bool" where
  "same_engine h h' =
     (parseFloat_str h' = parseFloat_str h \<and> Date_parse h' = Date_parse h
      \<and> num_to_string h' = num_to_string h \<and> engine_message h' = engine_message h
      \<and> JSON_parse h' = JSON_parse h \<and> JSON_stringify h' = JSON_stringify h
      \<and> sort_undated h' = sort_undated h)"

definition same_answers :: "env \<Rightarrow> env \<Rightarrow> jstring \<Rightarrow> bool" where
  "same_answers h h' ticker =
     (fetch_securities h' ticker = fetch_securities h ticker
      \<and> fetch_bondization h' ticker = fetch_bondization h ticker)"

section \<open>The nearest event as the specification words it\<close>

text \<open>
  A parseable date cell: one that is there (it passes the script's \<open>if (dStr)\<close>) and
  that the Date constructor accepts. An upcoming one is dated today or later.
\<close>

definition parseable :: "env \<Rightarrow> prim \<Rightarrow> bool" where
  "parseable h v = (truthy v \<and> valid_date (new_Date h v))"

definition upcoming :: "env \<Rightarrow> prim \<Rightarrow> bool" where
  "upcoming h v = (parseable h v \<and> today h \<le> time_of (new_Date h v))"

text \<open>The columns and rows of a block that has both.\<close>

definition table :: "block option \<Rightarrow> (jstring list \<times> prim list list) option" where
  "table blk =
     (case blk of
        None \<Rightarrow> None
      | Some b \<Rightarrow>
          (case (columns b, rows b) of
             (Some cols, Some rs) \<Rightarrow> Some (cols, rs)
           | _ \<Rightarrow> None))"

definition amort_of :: "env \<Rightarrow> jstring list \<Rightarrow> prim list \<Rightarrow> event" where
  "amort_of h cols row =
     \<lparr>e_date = new_Date h (field cols row (asc ''amortdate'')),
      e_type = String label_amortization,
      e_description =
        label_amortization @ asc '': '' @ to_string h (field cols row (asc ''amortdate''))\<rparr>"

definition offer_label :: "jstring list \<Rightarrow> prim list \<Rightarrow> prim" where
  "offer_label cols row =
     (if truthy (field cols row (asc ''offertype'')) then field cols row (asc ''offertype'')
      else String label_offer)"

definition offer_of :: "env \<Rightarrow> jstring list \<Rightarrow> prim list \<Rightarrow> event" where
  "offer_of h cols row =
     \<lparr>e_date = new_Date h (field cols row (asc ''offerdate'')),
      e_type = offer_label cols row,
      e_description =
        to_string h (offer_label cols row) @ asc '': ''
        @ to_string h (field cols row (asc ''offerdate''))\<rparr>"

text \<open>
  The events of a block: one per row with an upcoming date in the date column, in row
  order; none when the block or the date column is missing.
\<close>

definition kept :: "env \<Rightarrow> block option \<Rightarrow> jstring \<Rightarrow>
    (jstring list \<Rightarrow> prim list \<Rightarrow> event) \<Rightarrow> event list" where
  "kept h blk date_column build =
     (case table blk of
        None \<Rightarrow> []
      | Some (cols, rs) \<Rightarrow>
          if date_column \<in> set cols
          then map (build cols) (filter (\<lambda>row. upcoming h (field cols row date_column)) rs)
          else [])"

definition spec_events :: "env \<Rightarrow> doc \<Rightarrow> event list" where
  "spec_events h d =
     kept h (amortizations d) (asc ''amortdate'') (amort_of h)
     @ kept h (offers d) (asc ''offerdate'') (offer_of h)"

text \<open>
  The note: the distinct descriptions of the events in ascending order, one per line,
  then an empty line and the line naming the nearest event.
\<close>

definition spec_note :: "event list \<Rightarrow> jstring" where
  "spec_note ascending =
     join [10] (unique (map e_description ascending))
     @ msg_nearest @ e_description (hd ascending)"

definition spec_nearest :: "env \<Rightarrow> doc \<Rightarrow> option_result" where
  "spec_nearest h d =
     (if spec_events h d = [] then OptError msg_no_events
      else OptDates (Time (Min (set (map (\<lambda>e. time_of (e_date e)) (spec_events h d)))))
             (spec_note (sort_key (\<lambda>e. time_of (e_date e)) (spec_events h d))))"

section \<open>A small host to run the examples\<close>

text \<open>
  The examples need an engine: decimal rendering and reading of numbers, JSON of the
  scalar values the script caches, and a date parser defined on the dates the examples
  use (midnight UTC). The clock of the examples stands at 2025-01-10.
\<close>

fun digits :: "nat \<Rightarrow> jstring" where
  "digits n = (if n < 10 then [48 + n] else digits (n div 10) @ [48 + n mod 10])"

fun frac_digits :: "nat \<Rightarrow> rat \<Rightarrow> jstring" where
  "frac_digits 0 r = []"
| "frac_digits (Suc k) r =
     (if r = 0 then []
      else (48 + nat \<lfloor>r * 10\<rfloor>) # frac_digits k (r * 10 - of_int \<lfloor>r * 10\<rfloor>))"

fun demo_num_to_string :: "jsnum \<Rightarrow> jstring" where
  "demo_num_to_string NaN = asc ''NaN''"
| "demo_num_to_string PosInf = asc ''Infinity''"
| "demo_num_to_string NegInf = asc ''-Infinity''"
| "demo_num_to_string (Fin r) =
     (if r < 0 then [45] else []) @ digits (nat \<lfloor>\<bar>r\<bar>\<rfloor>)
     @ (if \<bar>r\<bar> = of_int \<lfloor>\<bar>r\<bar>\<rfloor> then []
        else 46 # frac_digits 17 (\<bar>r\<bar> - of_int \<lfloor>\<bar>r\<bar>\<rfloor>))"

definition is_digit :: "nat \<Rightarrow> bool" where
  "is_digit c = (48 \<le> c \<and> c \<le> 57)"

definition digits_value :: "jstring \<Rightarrow> nat" where
  "digits_value s = foldl (\<lambda>acc c. 10 * acc + (c - 48)) 0 s"

text \<open>Reads \<open>ddd\<close> and \<open>ddd.ddd\<close>, with an optional minus sign.\<close>

definition unsigned_number :: "jstring \<Rightarrow> rat option" where
  "unsigned_number s =
     (let ip = takeWhile is_digit s; rest = dropWhile is_digit s
      in if ip = [] then None
         else if rest = [] then Some (of_nat (digits_value ip))
         else if hd rest = 46 \<and> tl rest \<noteq> [] \<and> list_all is_digit (tl rest)
           then Some (of_nat (digits_value ip)
                      + of_nat (digits_value (tl rest)) / of_nat (10 ^ length (tl rest)))
         else None)"

definition demo_number :: "jstring \<Rightarrow> rat option" where
  "demo_number s =
     (case s of
        [] \<Rightarrow> None
      | c # cs \<Rightarrow> if c = 45 then map_option uminus (unsigned_number cs) else unsigned_number s)"

definition demo_parseFloat_str :: "jstring \<Rightarrow> jsnum" where
  "demo_parseFloat_str s = (case demo_number s of None \<Rightarrow> NaN | Some r \<Rightarrow> Fin r)"

definition demo_dates :: "(jstring \<times> int) list" where
  "demo_dates =
     [(asc ''2025-01-09'', 1736380800000),
      (asc ''2025-01-10'', 1736467200000),
      (asc ''2025-01-11'', 1736553600000),
      (asc ''2025-01-15'', 1736899200000),
      (asc ''2025-01-20'', 1737331200000)]"

definition demo_Date_parse :: "jstring \<Rightarrow> jsdate" where
  "demo_Date_parse s = (case map_of demo_dates s of None \<Rightarrow> Invalid | Some t \<Rightarrow> Time t)"

definition demo_iso :: "int \<Rightarrow> jstring" where
  "demo_iso t =
     (case map_of (map (\<lambda>(s, t). (t, s)) demo_dates) t of
        None \<Rightarrow> asc ''?''
      | Some s \<Rightarrow> s @ asc ''T00:00:00.000Z'')"

fun demo_JSON_stringify :: "jsval \<Rightarrow> jstring" where
  "demo_JSON_stringify (Prim (String s)) = 34 # s @ [34]"
| "demo_JSON_stringify (Prim (Number (Fin r))) = demo_num_to_string (Fin r)"
| "demo_JSON_stringify (Prim (Boolean b)) = (if b then asc ''true'' else asc ''false'')"
| "demo_JSON_stringify (Prim v) = asc ''null''"
| "demo_JSON_stringify (DateObj Invalid) = asc ''null''"
| "demo_JSON_stringify (DateObj (Time t)) = 34 # demo_iso t @ [34]"

definition demo_JSON_parse :: "jstring \<Rightarrow> exn + prim" where
  "demo_JSON_parse s =
     (if s = asc ''null'' then Inr Null
      else if s = asc ''true'' then Inr (Boolean True)
      else if s = asc ''false'' then Inr (Boolean False)
      else if 2 \<le> length s \<and> hd s = 34 \<and> last s = 34
              \<and> list_all (\<lambda>c. c \<noteq> 34 \<and> c \<noteq> 92 \<and> 32 \<le> c) (butlast (tl s))
        then Inr (String (butlast (tl s)))
      else (case demo_number s of
              Some r \<Rightarrow> Inr (Number (Fin r))
            | None \<Rightarrow> Inl (Exn SyntaxError (asc ''Unexpected token''))))"

fun demo_message :: "exn_kind \<Rightarrow> jstring" where
  "demo_message URIError = asc ''URI malformed''"
| "demo_message TypeError = asc ''Cannot read properties''"
| "demo_message SyntaxError = asc ''Unexpected token''"
| "demo_message HostError = asc ''Exception''"

text \<open>The sort of the demo host leaves an array with an Invalid Date as it came.\<close>

definition demo_sort_undated :: "jsdate list \<Rightarrow> nat list" where
  "demo_sort_undated ds = [0..<length ds]"

definition empty_doc :: doc where
  "empty_doc = \<lparr>marketdata = None, securities = None, coupons = None,
                amortizations = None, offers = None\<rparr>"

definition demo_env :: env where
  "demo_env =
     \<lparr>parseFloat_str = demo_parseFloat_str,
      Date_parse = demo_Date_parse,
      num_to_string = demo_num_to_string,
      engine_message = demo_message,
      JSON_parse = demo_JSON_parse,
      JSON_stringify = demo_JSON_stringify,
      sort_undated = demo_sort_undated,
      today = 1736467200000,
      fetch_securities = (\<lambda>ticker. Response 200 (JsonDoc empty_doc)),
      fetch_bondization = (\<lambda>ticker. Response 200 (JsonDoc empty_doc)),
      can_set_note = False\<rparr>"

text \<open>The coupons of the schedule example: yesterday 50, today 0, tomorrow 60.\<close>

definition schedule_cols :: "jstring list" where
  "schedule_cols = [asc ''coupondate'', asc ''value'', asc ''value_rub'']"

definition schedule_rows :: "prim list list" where
  "schedule_rows =
     [[String (asc ''2025-01-11''), Number (Fin 60), Number (Fin 60)],
      [String (asc ''2025-01-09''), Number (Fin 50), Number (Fin 50)],
      [String (asc ''2025-01-10''), Number (Fin 0), Number (Fin 0)]]"

definition schedule_block :: block where
  "schedule_block = \<lparr>columns = Some schedule_cols, rows = Some schedule_rows\<rparr>"

definition schedule_doc :: doc where
  "schedule_doc = empty_doc\<lparr>coupons := Some schedule_block\<rparr>"

definition schedule_env :: env where
  "schedule_env = demo_env\<lparr>fetch_bondization := (\<lambda>ticker. Response 200 (JsonDoc schedule_doc))\<rparr>"

text \<open>
  Coupons with a date that does not parse: one such row alone, with the value 10, and
  the same row followed by today's row with the value 0.
\<close>

definition undated_cols :: "jstring list" where
  "undated_cols = [asc ''coupondate'', asc ''value'']"

definition lone_rows :: "prim list list" where
  "lone_rows = [[String (asc ''garbage''), Number (Fin 10)]]"

definition undated_rows :: "prim list list" where
  "undated_rows = [[String (asc ''garbage''), Number (Fin 10)],
                   [String (asc ''2025-01-10''), Number (Fin 0)]]"

definition lone_env :: env where
  "lone_env =
     demo_env\<lparr>fetch_bondization :=
       (\<lambda>ticker. Response 200 (JsonDoc (empty_doc\<lparr>coupons :=
          Some \<lparr>columns = Some undated_cols, rows = Some lone_rows\<rparr>\<rparr>)))\<rparr>"

definition undated_env :: env where
  "undated_env =
     demo_env\<lparr>fetch_bondization :=
       (\<lambda>ticker. Response 200 (JsonDoc (empty_doc\<lparr>coupons :=
          Some \<lparr>columns = Some undated_cols, rows = Some undated_rows\<rparr>\<rparr>)))\<rparr>"

text \<open>The price example: \<open>LAST\<close> null, \<open>CLOSEPRICE\<close> 101.5, \<open>PREVPRICE\<close> 99.\<close>

definition price_marketdata :: block where
  "price_marketdata = \<lparr>columns = Some [asc ''LAST'', asc ''CLOSEPRICE''],
                        rows = Some [[Null, Number (Fin (203 / 2))]]\<rparr>"

definition price_securities :: block where
  "price_securities = \<lparr>columns = Some [asc ''PREVPRICE''], rows = Some [[Number (Fin 99)]]\<rparr>"

definition price_doc :: doc where
  "price_doc = empty_doc\<lparr>marketdata := Some price_marketdata,
                         securities := Some price_securities\<rparr>"

definition price_env :: env where
  "price_env = demo_env\<lparr>fetch_securities := (\<lambda>ticker. Response 200 (JsonDoc price_doc))\<rparr>"

text \<open>A floater: \<open>COUPONVALUE\<close> is 0, the schedule is that of the schedule example.\<close>

definition floater_securities :: block where
  "floater_securities = \<lparr>columns = Some [asc ''SECID'', asc ''COUPONVALUE''],
                          rows = Some [[String (asc ''A''), Number (Fin 0)]]\<rparr>"

definition floater_env :: env where
  "floater_env =
     schedule_env\<lparr>fetch_securities :=
       (\<lambda>ticker. Response 200 (JsonDoc (empty_doc\<lparr>securities := Some floater_securities\<rparr>)))\<rparr>"

text \<open>A bond with a fixed coupon of 37.4.\<close>

definition fixed_securities :: block where
  "fixed_securities = \<lparr>columns = Some [asc ''SECID'', asc ''COUPONVALUE''],
                        rows = Some [[String (asc ''B''), Number (Fin (187 / 5))]]\<rparr>"

definition fixed_env :: env where
  "fixed_env =
     schedule_env\<lparr>fetch_securities :=
       (\<lambda>ticker. Response 200 (JsonDoc (empty_doc\<lparr>securities := Some fixed_securities\<rparr>)))\<rparr>"

text \<open>A bond with no coupon ahead and a maturity date.\<close>

definition dates_securities :: block where
  "dates_securities = \<lparr>columns = Some [asc ''NEXTCOUPON'', asc ''MATDATE''],
                        rows = Some [[String (asc ''0000-00-00''),
                                      String (asc ''2025-01-20'')]]\<rparr>"

definition dates_env :: env where
  "dates_env =
     demo_env\<lparr>fetch_securities :=
       (\<lambda>ticker. Response 200 (JsonDoc (empty_doc\<lparr>securities := Some dates_securities\<rparr>)))\<rparr>"

text \<open>Caches of the examples.\<close>

definition empty_cache :: cache where
  "empty_cache = Map.empty"

definition other_cache :: cache where
  "other_cache = empty_cache(asc ''B'' \<mapsto> asc ''7'')"

text \<open>The floater a day later, and the floater with a spreadsheet that accepts notes.\<close>

definition later_env :: env where
  "later_env = floater_env\<lparr>today := 1736553600000\<rparr>"

definition noted_env :: env where
  "noted_env = floater_env\<lparr>can_set_note := True\<rparr>"

text \<open>
  The events example: an amortization five days ahead, an offer ten days ahead (its row
  twice in the feed), an amortization in the past and an offer with no date.
\<close>

definition events_amortizations :: block where
  "events_amortizations = \<lparr>columns = Some [asc ''amortdate'', asc ''value''],
                            rows = Some [[String (asc ''2025-01-09''), Number (Fin 100)],
                                         [String (asc ''2025-01-15''), Number (Fin 500)]]\<rparr>"

definition events_offers :: block where
  "events_offers = \<lparr>columns = Some [asc ''offerdate'', asc ''offertype''],
                     rows = Some [[String (asc ''2025-01-20''), Null],
                                  [String (asc ''2025-01-20''), Null],
                                  [Null, String (asc ''Put'')]]\<rparr>"

definition events_doc :: doc where
  "events_doc = empty_doc\<lparr>amortizations := Some events_amortizations,
                          offers := Some events_offers\<rparr>"

definition events_env :: env where
  "events_env = demo_env\<lparr>fetch_bondization := (\<lambda>ticker. Response 200 (JsonDoc events_doc))\<rparr>"

definition events_note :: jstring where
  "events_note =
     label_amortization @ asc '': 2025-01-15'' @ [10] @ label_offer @ asc '': 2025-01-20''
     @ msg_nearest @ label_amortization @ asc '': 2025-01-15''"

section \<open>Columns and cells\<close>

lemma indexOf_ge: "- 1 \<le> indexOf cols name"
  by (induction cols) (auto simp: Let_def)

lemma indexOf_absent: "(indexOf cols name = - 1) = (name \<notin> set cols)"
proof (induction cols)
  case Nil
  show ?case by simp
next
  case (Cons c cs)
  have "- 1 \<le> indexOf cs name" by (rule indexOf_ge)
  with Cons show ?case by (auto simp: Let_def)
qed

lemma indexOf_present:
  "name \<in> set cols \<Longrightarrow>
   0 \<le> indexOf cols name \<and> nat (indexOf cols name) < length cols
   \<and> cols ! nat (indexOf cols name) = name
   \<and> name \<notin> set (take (nat (indexOf cols name)) cols)"
proof (induction cols)
  case Nil
  then show ?case by simp
next
  case (Cons c cs)
  show ?case
  proof (cases "c = name")
    case True
    then show ?thesis by simp
  next
    case False
    with Cons.prems have mem: "name \<in> set cs" by simp
    then have ne: "indexOf cs name \<noteq> - 1" by (simp add: indexOf_absent)
    from Cons.IH [OF mem] have ih:
      "0 \<le> indexOf cs name" "nat (indexOf cs name) < length cs"
      "cs ! nat (indexOf cs name) = name"
      "name \<notin> set (take (nat (indexOf cs name)) cs)"
      by simp_all
    have eq: "indexOf (c # cs) name = indexOf cs name + 1"
      using False ne by (simp add: Let_def)
    have n: "nat (indexOf cs name + 1) = Suc (nat (indexOf cs name))"
      using ih(1) by simp
    show ?thesis
      using False ih by (simp add: eq n)
  qed
qed

lemma nullish_iff: "nullish v = (v = Null \<or> v = Undefined)"
  by (cases v) simp_all

lemma field_absent: "name \<notin> set cols \<Longrightarrow> field cols row name = Undefined"
  by (simp add: field_def cell_at_def indexOf_absent [symmetric])

lemma field_present:
  assumes "name \<in> set cols" and "length row = length cols"
  shows "field cols row name = row ! nat (indexOf cols name)"
proof -
  from indexOf_present [OF assms(1)]
  have nonneg: "0 \<le> indexOf cols name" and "nat (indexOf cols name) < length cols"
    by simp_all
  then have "indexOf cols name < int (length row)"
    using assms(2) by linarith
  with nonneg show ?thesis
    by (simp add: field_def cell_at_def)
qed

section \<open>The sort on valid dates\<close>

lemma insert_by_date_valid:
  "valid_date (f x) \<Longrightarrow> list_all (\<lambda>y. valid_date (f y)) ys \<Longrightarrow>
   insert_by_date f x ys = insort_key (\<lambda>y. time_of (f y)) x ys"
proof (induction ys)
  case Nil
  show ?case by simp
next
  case (Cons y ys)
  from Cons.prems obtain a b where a: "f x = Time a" and b: "f y = Time b"
    by (cases "f x"; cases "f y") (auto simp: valid_date_def)
  from Cons show ?case
    by (simp add: a b sort_compare_def)
qed

lemma insertion_valid:
  "list_all (\<lambda>y. valid_date (f y)) xs \<Longrightarrow>
   foldr (insert_by_date f) xs [] = sort_key (\<lambda>y. time_of (f y)) xs"
proof (induction xs)
  case Nil
  show ?case by simp
next
  case (Cons x xs)
  then have ih: "foldr (insert_by_date f) xs [] = sort_key (\<lambda>y. time_of (f y)) xs"
    by simp
  have "list_all (\<lambda>y. valid_date (f y)) (sort_key (\<lambda>y. time_of (f y)) xs)"
    using Cons.prems by (simp add: list_all_iff)
  with Cons.prems show ?case
    by (simp add: ih insert_by_date_valid)
qed

lemma sort_by_date_valid:
  "list_all (\<lambda>y. valid_date (f y)) xs \<Longrightarrow>
   sort_by_date h f xs = sort_key (\<lambda>y. time_of (f y)) xs"
  by (simp add: sort_by_date_def insertion_valid)

lemma sort_by_date_single: "sort_by_date h f [x] = [x]"
  by (simp add: sort_by_date_def)

section \<open>The coupon schedule scan\<close>

lemma not_on_or_after_valid:
  "valid_date d \<Longrightarrow> (\<not> on_or_after t d) = strictly_before t d"
  by (cases d) (auto simp: valid_date_def)

lemma remembered_from_Cons:
  "remembered_from acc t (c # cs) =
     remembered_from
       (if strictly_before t (c_date c) \<and> usable (c_value c) then c_value c else acc) t cs"
  by (simp add: remembered_from_def split: list.splits)

lemma scan_as_specified:
  "list_all (\<lambda>c. valid_date (c_date c)) cs \<Longrightarrow>
   scan t cs acc =
     at_stop (dropWhile (\<lambda>c. \<not> on_or_after t (c_date c)) cs)
       (remembered_from acc t (takeWhile (\<lambda>c. \<not> on_or_after t (c_date c)) cs))"
proof (induction cs arbitrary: acc)
  case Nil
  then show ?case by (simp add: remembered_from_def at_stop_def)
next
  case (Cons c cs)
  show ?case
  proof (cases "on_or_after t (c_date c)")
    case True
    then show ?thesis by (simp add: remembered_from_def at_stop_def)
  next
    case False
    from Cons.prems have v: "valid_date (c_date c)"
      and rest: "list_all (\<lambda>c. valid_date (c_date c)) cs"
      by simp_all
    from False v have sb: "strictly_before t (c_date c)"
      by (simp add: not_on_or_after_valid)
    let ?acc = "if usable (c_value c) then c_value c else acc"
    have "scan t (c # cs) acc = scan t cs ?acc"
      using False by simp
    also note Cons.IH [OF rest, of ?acc]
    finally show ?thesis
      using False sb by (simp add: remembered_from_Cons)
  qed
qed

text \<open>
  Whatever the dates are, the loop stops at the first record on or after today and
  remembers the last usable value before it. A record with an unparseable date is not on
  or after today, so the loop examines it like a past record.
\<close>

lemma last_usable_Cons:
  "last_usable acc (c # cs) = last_usable (if usable (c_value c) then c_value c else acc) cs"
  by (simp add: last_usable_def split: list.splits)

lemma scan_any_dates:
  "scan t cs acc =
     at_stop (dropWhile (\<lambda>c. \<not> on_or_after t (c_date c)) cs)
       (last_usable acc (takeWhile (\<lambda>c. \<not> on_or_after t (c_date c)) cs))"
proof (induction cs arbitrary: acc)
  case Nil
  show ?case by (simp add: last_usable_def at_stop_def)
next
  case (Cons c cs)
  show ?case
  proof (cases "on_or_after t (c_date c)")
    case True
    then show ?thesis by (simp add: last_usable_def at_stop_def)
  next
    case False
    then show ?thesis by (simp add: Cons.IH last_usable_Cons)
  qed
qed

text \<open>
  Whatever the dates are: the records after the first one on or after today do not
  matter to the loop.
\<close>

lemma scan_stops:
  "list_all (\<lambda>c. \<not> on_or_after t (c_date c)) past \<Longrightarrow> on_or_after t (c_date c) \<Longrightarrow>
   scan t (past @ c # later) acc = scan t (past @ [c]) acc"
  by (induction past arbitrary: acc) simp_all

text \<open>
  Claim C1, as amended. For every coupons block whose \<open>coupondate\<close> cells all parse
  to dates, and every reference date, the scan of \<open>fetchCouponFromBondization\<close> runs
  over the date-ascending record sequence and behaves as specified: a record strictly
  before today with a usable value (not null, not NaN, not zero) overwrites the
  remembered value; at the first record on or after today the scan returns that record's
  value when usable, and otherwise stops there, looking at no later record, and returns
  the remembered value if there is one and the text "coupon undetermined" if not.
  Blocks with a date that does not parse are left out of the statement.
\<close>

theorem C1_coupon_schedule_scan:
  assumes enc: "uri_encodable ticker"
    and resp: "fetch_bondization h ticker = Response 200 (JsonDoc d)"
    and blk: "coupons d = Some b" "columns b = Some cols" "rows b = Some rs"
    and col: "asc ''coupondate'' \<in> set cols"
    and dates: "list_all (\<lambda>r. valid_date (new_Date h
                  (cell_at r (indexOf cols (asc ''coupondate''))))) rs"
  shows "fetchCouponFromBondization h ticker =
           ([(BondizationEndpoint, ticker)],
            Inr (spec_scan (today h) (coupon_records h cols rs)))
         \<and> sorted (map (\<lambda>c. time_of (c_date c)) (coupon_records h cols rs))
         \<and> mset (coupon_records h cols rs) =
             mset (map (coupon_of_row h (indexOf cols (asc ''coupondate''))
                          (indexOf cols (asc ''value'')) (indexOf cols (asc ''value_rub''))) rs)"
proof -
  let ?row = "coupon_of_row h (indexOf cols (asc ''coupondate''))
                (indexOf cols (asc ''value'')) (indexOf cols (asc ''value_rub''))"
  have idx: "indexOf cols (asc ''coupondate'') \<noteq> - 1"
    using col by (simp add: indexOf_absent)
  have valid: "list_all (\<lambda>c. valid_date (c_date c)) (map ?row rs)"
    using dates by (simp add: list_all_iff coupon_of_row_def Let_def)
  have sorted_eq: "sort_by_date h c_date (map ?row rs) = coupon_records h cols rs"
    using valid by (simp add: sort_by_date_valid coupon_records_def)
  have valid': "list_all (\<lambda>c. valid_date (c_date c)) (coupon_records h cols rs)"
    using valid by (simp add: coupon_records_def list_all_iff)
  have doc: "coupon_of_doc h d = Inr (scan (today h) (coupon_records h cols rs) None)"
    using blk idx by (simp add: coupon_of_doc_def Let_def sorted_eq)
  have "scan (today h) (coupon_records h cols rs) None =
          spec_scan (today h) (coupon_records h cols rs)"
    using valid' by (simp add: scan_as_specified spec_scan_def remembered_def)
  with doc have "fetchCouponFromBondization h ticker =
           ([(BondizationEndpoint, ticker)],
            Inr (spec_scan (today h) (coupon_records h cols rs)))"
    using enc resp by (simp add: fetchCouponFromBondization_def with_doc_def try_catch_def)
  moreover have "sorted (map (\<lambda>c. time_of (c_date c)) (coupon_records h cols rs))"
    by (simp add: coupon_records_def)
  moreover have "mset (coupon_records h cols rs) = mset (map ?row rs)"
    by (simp add: coupon_records_def)
  ultimately show ?thesis by simp
qed

text \<open>
  The example of the specification, through the whole function: the rows arrive as
  (tomorrow, 60), (yesterday, 50), (today, 0) and the result is 50, not 60.
\<close>

theorem C1_coupon_schedule_scan_witness:
  "uri_encodable (asc ''A'')
   \<and> fetch_bondization schedule_env (asc ''A'') = Response 200 (JsonDoc schedule_doc)
   \<and> coupons schedule_doc = Some schedule_block
   \<and> asc ''coupondate'' \<in> set schedule_cols
   \<and> list_all (\<lambda>r. valid_date (new_Date schedule_env
                        (cell_at r (indexOf schedule_cols (asc ''coupondate''))))) schedule_rows
   \<and> snd (fetchCouponFromBondization schedule_env (asc ''A'')) = Inr (Num (Fin 50))"
proof -
  have enc: "uri_encodable (asc ''A'')"
    by (simp add: asc_def)
  have resp: "fetch_bondization schedule_env (asc ''A'') = Response 200 (JsonDoc schedule_doc)"
    by (simp add: schedule_env_def)
  have blk: "coupons schedule_doc = Some schedule_block"
    "columns schedule_block = Some schedule_cols" "rows schedule_block = Some schedule_rows"
    by (simp_all add: schedule_doc_def schedule_block_def)
  have col: "asc ''coupondate'' \<in> set schedule_cols"
    by (simp add: schedule_cols_def)
  have dates: "list_all (\<lambda>r. valid_date (new_Date schedule_env
                   (cell_at r (indexOf schedule_cols (asc ''coupondate''))))) schedule_rows"
    by (simp add: schedule_cols_def schedule_rows_def asc_def cell_at_def schedule_env_def
        demo_env_def demo_Date_parse_def demo_dates_def valid_date_def)
  have res: "spec_scan (today schedule_env)
               (coupon_records schedule_env schedule_cols schedule_rows) = Num (Fin 50)"
    by (simp add: schedule_cols_def schedule_rows_def asc_def cell_at_def schedule_env_def
        demo_env_def demo_Date_parse_def demo_dates_def coupon_records_def coupon_of_row_def
        spec_scan_def remembered_def remembered_from_def at_stop_def isNaN_def is_zero_def)
  from C1_coupon_schedule_scan [OF enc resp blk col dates]
  have "snd (fetchCouponFromBondization schedule_env (asc ''A'')) = Inr (Num (Fin 50))"
    by (simp add: res)
  with enc resp blk col dates show ?thesis by simp
qed

text \<open>
  The claim as stated, for every coupons block, fails where a date does not parse. The
  script has no check of the date: an Invalid Date is not on or after today, so the loop
  remembers the value of such a record though it is not strictly before today. A block
  of the one row (garbage, 10) gives 10, and so do the rows (garbage, 10), (today, 0),
  where the specified scan finds nothing to remember and gives "coupon undetermined".
\<close>

theorem C1_coupon_schedule_scan_counterexample:
  "map (coupon_of_row lone_env (indexOf undated_cols (asc ''coupondate''))
          (indexOf undated_cols (asc ''value'')) (indexOf undated_cols (asc ''value_rub'')))
     lone_rows = [\<lparr>c_date = Invalid, c_value = Some (Fin 10)\<rparr>]
   \<and> spec_scan (today lone_env) [\<lparr>c_date = Invalid, c_value = Some (Fin 10)\<rparr>] =
       Str msg_coupon_undetermined
   \<and> fetchCouponFromBondization lone_env (asc ''A'') =
       ([(BondizationEndpoint, asc ''A'')], Inr (Num (Fin 10)))
   \<and> map (coupon_of_row undated_env (indexOf undated_cols (asc ''coupondate''))
          (indexOf undated_cols (asc ''value'')) (indexOf undated_cols (asc ''value_rub'')))
     undated_rows = [\<lparr>c_date = Invalid, c_value = Some (Fin 10)\<rparr>,
                     \<lparr>c_date = Time 1736467200000, c_value = Some (Fin 0)\<rparr>]
   \<and> spec_scan (today undated_env)
         [\<lparr>c_date = Invalid, c_value = Some (Fin 10)\<rparr>,
          \<lparr>c_date = Time 1736467200000, c_value = Some (Fin 0)\<rparr>] =
       Str msg_coupon_undetermined
   \<and> fetchCouponFromBondization undated_env (asc ''A'') =
       ([(BondizationEndpoint, asc ''A'')], Inr (Num (Fin 10)))
   \<and> Num (Fin 10) \<noteq> Str msg_coupon_undetermined"
proof -
  have records1: "map (coupon_of_row lone_env (indexOf undated_cols (asc ''coupondate''))
          (indexOf undated_cols (asc ''value'')) (indexOf undated_cols (asc ''value_rub'')))
     lone_rows = [\<lparr>c_date = Invalid, c_value = Some (Fin 10)\<rparr>]"
    by (simp add: coupon_of_row_def undated_cols_def lone_rows_def asc_def cell_at_def
        lone_env_def demo_env_def demo_Date_parse_def demo_dates_def)
  have records2: "map (coupon_of_row undated_env (indexOf undated_cols (asc ''coupondate''))
          (indexOf undated_cols (asc ''value'')) (indexOf undated_cols (asc ''value_rub'')))
     undated_rows = [\<lparr>c_date = Invalid, c_value = Some (Fin 10)\<rparr>,
                     \<lparr>c_date = Time 1736467200000, c_value = Some (Fin 0)\<rparr>]"
    by (simp add: coupon_of_row_def undated_cols_def undated_rows_def asc_def cell_at_def
        undated_env_def demo_env_def demo_Date_parse_def demo_dates_def)
  have spec1: "spec_scan (today lone_env) [\<lparr>c_date = Invalid, c_value = Some (Fin 10)\<rparr>] =
       Str msg_coupon_undetermined"
    by (simp add: spec_scan_def remembered_def remembered_from_def at_stop_def)
  have spec2: "spec_scan (today undated_env)
         [\<lparr>c_date = Invalid, c_value = Some (Fin 10)\<rparr>,
          \<lparr>c_date = Time 1736467200000, c_value = Some (Fin 0)\<rparr>] =
       Str msg_coupon_undetermined"
    by (simp add: spec_scan_def remembered_def remembered_from_def at_stop_def
        undated_env_def demo_env_def isNaN_def is_zero_def)
  have order: "sort_by_date undated_env c_date
         [\<lparr>c_date = Invalid, c_value = Some (Fin 10)\<rparr>,
          \<lparr>c_date = Time 1736467200000, c_value = Some (Fin 0)\<rparr>] =
         [\<lparr>c_date = Invalid, c_value = Some (Fin 10)\<rparr>,
          \<lparr>c_date = Time 1736467200000, c_value = Some (Fin 0)\<rparr>]"
    by (simp add: sort_by_date_def valid_date_def reorder_def List.map_filter_def
        undated_env_def demo_env_def demo_sort_undated_def upt_rec)
  have doc1: "coupon_of_doc lone_env
       (empty_doc\<lparr>coupons := Some \<lparr>columns = Some undated_cols, rows = Some lone_rows\<rparr>\<rparr>) =
       Inr (Num (Fin 10))"
    using records1
    by (simp add: coupon_of_doc_def Let_def sort_by_date_single isNaN_def is_zero_def)
      (simp add: undated_cols_def asc_def)
  have doc2: "coupon_of_doc undated_env
       (empty_doc\<lparr>coupons := Some \<lparr>columns = Some undated_cols, rows = Some undated_rows\<rparr>\<rparr>) =
       Inr (Num (Fin 10))"
    using records2
    by (simp add: coupon_of_doc_def Let_def order isNaN_def is_zero_def)
      (simp add: undated_cols_def asc_def undated_env_def demo_env_def)
  have code1: "fetchCouponFromBondization lone_env (asc ''A'') =
       ([(BondizationEndpoint, asc ''A'')], Inr (Num (Fin 10)))"
    using doc1
    by (simp add: fetchCouponFromBondization_def with_doc_def try_catch_def lone_env_def)
      (simp add: asc_def)
  have code2: "fetchCouponFromBondization undated_env (asc ''A'') =
       ([(BondizationEndpoint, asc ''A'')], Inr (Num (Fin 10)))"
    using doc2
    by (simp add: fetchCouponFromBondization_def with_doc_def try_catch_def undated_env_def)
      (simp add: asc_def)
  from records1 spec1 code1 records2 spec2 code2 show ?thesis by simp
qed

section \<open>Price\<close>

text \<open>
  Claim C2. When the snapshot fetch answers 200 with both the \<open>securities\<close> and the
  \<open>marketdata\<close> block present (columns and a first row each), the price resolver returns
  \<open>parseFloat\<close> of the first value that is neither null nor undefined among
  \<open>marketdata.LAST\<close>, \<open>marketdata.CLOSEPRICE\<close>, \<open>securities.PREVLEGALCLOSEPRICE\<close>,
  \<open>securities.PREVPRICE\<close>, in this order, and the text "price not found" when all four
  are null or absent.
\<close>

theorem C2_price_fallback:
  assumes enc: "uri_encodable ticker"
    and resp: "fetch_securities h ticker = Response 200 (JsonDoc d)"
    and md: "marketdata d = Some md" "columns md = Some mc" "rows md = Some (mrow # mrs)"
    and sec: "securities d = Some sec" "columns sec = Some sc" "rows sec = Some (srow # srs)"
  shows "fetchSinglePriceInternal h ticker =
           ([(SecuritiesEndpoint, ticker)], Inr (spec_price h mc mrow sc srow))"
proof -
  have "price_of_doc h d = Inr (spec_price h mc mrow sc srow)"
    using md sec
    by (simp add: price_of_doc_def price_chain_def spec_price_def first_present_def field_def
        nullish_iff)
  then show ?thesis
    using enc resp by (simp add: fetchSinglePriceInternal_def with_doc_def try_catch_def)
qed

text \<open>The example of the specification: the result is 101.5.\<close>

theorem C2_price_fallback_witness:
  "uri_encodable (asc ''A'')
   \<and> fetch_securities price_env (asc ''A'') = Response 200 (JsonDoc price_doc)
   \<and> marketdata price_doc = Some price_marketdata
   \<and> columns price_marketdata = Some [asc ''LAST'', asc ''CLOSEPRICE'']
   \<and> rows price_marketdata = Some [[Null, Number (Fin (203 / 2))]]
   \<and> securities price_doc = Some price_securities
   \<and> columns price_securities = Some [asc ''PREVPRICE'']
   \<and> rows price_securities = Some [[Number (Fin 99)]]
   \<and> snd (fetchSinglePriceInternal price_env (asc ''A'')) = Inr (Num (Fin (203 / 2)))"
proof -
  have enc: "uri_encodable (asc ''A'')"
    by (simp add: asc_def)
  have resp: "fetch_securities price_env (asc ''A'') = Response 200 (JsonDoc price_doc)"
    by (simp add: price_env_def)
  have md: "marketdata price_doc = Some price_marketdata"
    "columns price_marketdata = Some [asc ''LAST'', asc ''CLOSEPRICE'']"
    "rows price_marketdata = Some [[Null, Number (Fin (203 / 2))]]"
    by (simp_all add: price_doc_def price_marketdata_def)
  have sec: "securities price_doc = Some price_securities"
    "columns price_securities = Some [asc ''PREVPRICE'']"
    "rows price_securities = Some [[Number (Fin 99)]]"
    by (simp_all add: price_doc_def price_securities_def)
  have val: "spec_price price_env [asc ''LAST'', asc ''CLOSEPRICE''] [Null, Number (Fin (203 / 2))]
               [asc ''PREVPRICE''] [Number (Fin 99)] = Num (Fin (203 / 2))"
    by (simp add: spec_price_def first_present_def field_def cell_at_def asc_def)
  from C2_price_fallback [OF enc resp md sec]
  have "snd (fetchSinglePriceInternal price_env (asc ''A'')) = Inr (Num (Fin (203 / 2)))"
    by (simp add: val)
  with enc resp md sec show ?thesis by simp
qed

section \<open>Coupon value, stage 1\<close>

text \<open>
  Claim C5. With the \<open>securities\<close> block present and non-empty: when the
  \<open>COUPONVALUE\<close> column is absent, or its value is null or undefined, or its parsed value
  is exactly zero, the coupon-value resolver does not return a stage-1 value; it issues
  the bondization request and returns what \<open>fetchCouponFromBondization\<close> returns. When
  the parsed value is not zero it is returned at once, and the snapshot request is the
  only one.
\<close>

theorem C5_coupon_value_stage1:
  assumes enc: "uri_encodable ticker"
    and resp: "fetch_securities h ticker = Response 200 (JsonDoc d)"
    and sec: "securities d = Some sec" "columns sec = Some cols" "rows sec = Some (row # others)"
  shows "fetchCouponValueInternal h ticker =
           (if asc ''COUPONVALUE'' \<notin> set cols
               \<or> nullish (field cols row (asc ''COUPONVALUE''))
               \<or> is_zero (parseFloat h (field cols row (asc ''COUPONVALUE'')))
            then ([(SecuritiesEndpoint, ticker), (BondizationEndpoint, ticker)],
                  snd (fetchCouponFromBondization h ticker))
            else ([(SecuritiesEndpoint, ticker)],
                  Inr (Num (parseFloat h (field cols row (asc ''COUPONVALUE''))))))"
proof -
  have row: "securities_row d = Some (cols, row)"
    using sec by (simp add: securities_row_def)
  obtain v where bond:
    "fetchCouponFromBondization h ticker = ([(BondizationEndpoint, ticker)], Inr v)"
    using enc by (simp add: fetchCouponFromBondization_def)
  show ?thesis
  proof (cases "asc ''COUPONVALUE'' \<notin> set cols
               \<or> nullish (field cols row (asc ''COUPONVALUE''))
               \<or> is_zero (parseFloat h (field cols row (asc ''COUPONVALUE'')))")
    case True
    then have "coupon_stage1 h d = Inr None"
      using row by (auto simp: coupon_stage1_def Let_def field_def indexOf_absent nullish_iff)
    then show ?thesis
      using True enc resp bond
      by (simp add: fetchCouponValueInternal_def with_doc_def try_catch_def)
  next
    case False
    then have "coupon_stage1 h d =
        Inr (Some (Num (parseFloat h (field cols row (asc ''COUPONVALUE'')))))"
      using row by (auto simp: coupon_stage1_def Let_def field_def indexOf_absent nullish_iff)
    then show ?thesis
      using False enc resp
      by (simp add: fetchCouponValueInternal_def with_doc_def)
  qed
qed

text \<open>
  A floater with \<open>COUPONVALUE\<close> 0 goes to the schedule and gets 50 from it, with two
  requests; a coupon of 37.4 is returned after one request.
\<close>

theorem C5_coupon_value_stage1_witness:
  "uri_encodable (asc ''A'')
   \<and> fetch_securities floater_env (asc ''A'') =
       Response 200 (JsonDoc (empty_doc\<lparr>securities := Some floater_securities\<rparr>))
   \<and> rows floater_securities = Some [[String (asc ''A''), Number (Fin 0)]]
   \<and> fetchCouponValueInternal floater_env (asc ''A'') =
       ([(SecuritiesEndpoint, asc ''A''), (BondizationEndpoint, asc ''A'')], Inr (Num (Fin 50)))
   \<and> fetch_securities fixed_env (asc ''B'') =
       Response 200 (JsonDoc (empty_doc\<lparr>securities := Some fixed_securities\<rparr>))
   \<and> rows fixed_securities = Some [[String (asc ''B''), Number (Fin (187 / 5))]]
   \<and> fetchCouponValueInternal fixed_env (asc ''B'') =
       ([(SecuritiesEndpoint, asc ''B'')], Inr (Num (Fin (187 / 5))))"
proof -
  have encA: "uri_encodable (asc ''A'')" and encB: "uri_encodable (asc ''B'')"
    by (simp_all add: asc_def)
  have respA: "fetch_securities floater_env (asc ''A'') =
       Response 200 (JsonDoc (empty_doc\<lparr>securities := Some floater_securities\<rparr>))"
    by (simp add: floater_env_def)
  have secA: "securities (empty_doc\<lparr>securities := Some floater_securities\<rparr>) =
       Some floater_securities"
    "columns floater_securities = Some [asc ''SECID'', asc ''COUPONVALUE'']"
    "rows floater_securities = Some [[String (asc ''A''), Number (Fin 0)]]"
    by (simp_all add: floater_securities_def)
  have respB: "fetch_securities fixed_env (asc ''B'') =
       Response 200 (JsonDoc (empty_doc\<lparr>securities := Some fixed_securities\<rparr>))"
    by (simp add: fixed_env_def)
  have secB: "securities (empty_doc\<lparr>securities := Some fixed_securities\<rparr>) =
       Some fixed_securities"
    "columns fixed_securities = Some [asc ''SECID'', asc ''COUPONVALUE'']"
    "rows fixed_securities = Some [[String (asc ''B''), Number (Fin (187 / 5))]]"
    by (simp_all add: fixed_securities_def)
  have schedule: "snd (fetchCouponFromBondization floater_env (asc ''A'')) = Inr (Num (Fin 50))"
    by (simp add: fetchCouponFromBondization_def with_doc_def try_catch_def floater_env_def
        schedule_env_def demo_env_def schedule_doc_def schedule_block_def empty_doc_def
        coupon_of_doc_def schedule_cols_def schedule_rows_def asc_def cell_at_def
        coupon_of_row_def demo_Date_parse_def demo_dates_def sort_by_date_def valid_date_def sort_compare_def
        isNaN_def is_zero_def)
  have cellA: "field [asc ''SECID'', asc ''COUPONVALUE''] [String (asc ''A''), Number (Fin 0)]
                 (asc ''COUPONVALUE'') = Number (Fin 0)"
    and cellB: "field [asc ''SECID'', asc ''COUPONVALUE'']
                 [String (asc ''B''), Number (Fin (187 / 5))] (asc ''COUPONVALUE'') =
               Number (Fin (187 / 5))"
    by (simp_all add: field_def cell_at_def asc_def)
  from C5_coupon_value_stage1 [OF encA respA secA]
  have a: "fetchCouponValueInternal floater_env (asc ''A'') =
       ([(SecuritiesEndpoint, asc ''A''), (BondizationEndpoint, asc ''A'')], Inr (Num (Fin 50)))"
    by (simp add: cellA schedule is_zero_def)
  from C5_coupon_value_stage1 [OF encB respB secB]
  have b: "fetchCouponValueInternal fixed_env (asc ''B'') =
       ([(SecuritiesEndpoint, asc ''B'')], Inr (Num (Fin (187 / 5))))"
    by (simp add: cellB is_zero_def)
  from encA respA secA(3) a respB secB(3) b show ?thesis by simp
qed

section \<open>Next coupon date and maturity date\<close>

text \<open>
  Claim C7. With the \<open>securities\<close> block present and the column there, both the
  next-coupon resolver (\<open>NEXTCOUPON\<close>) and the maturity resolver (\<open>MATDATE\<close>) answer a
  cell that is null or empty, or the literal \<open>0000-00-00\<close>, with their own "not
  available" text: the result is that text whatever the date parser would make of the
  cell. Any other cell is handed to the Date constructor and the Date object is
  returned.
\<close>

theorem C7_sentinel_dates:
  assumes enc: "uri_encodable ticker"
    and resp: "fetch_securities h ticker = Response 200 (JsonDoc d)"
    and sec: "securities d = Some sec" "columns sec = Some cols" "rows sec = Some (row # others)"
  shows "(asc ''NEXTCOUPON'' \<in> set cols \<longrightarrow>
            fetchNextCouponInternal h ticker =
              ([(SecuritiesEndpoint, ticker)],
               Inr (if unavailable (field cols row (asc ''NEXTCOUPON''))
                    then Str msg_no_upcoming_coupons
                    else DateObj (new_Date h (field cols row (asc ''NEXTCOUPON''))))))
       \<and> (asc ''MATDATE'' \<in> set cols \<longrightarrow>
            fetchMaturityDateInternal h ticker =
              ([(SecuritiesEndpoint, ticker)],
               Inr (if unavailable (field cols row (asc ''MATDATE''))
                    then Str msg_maturity_undefined
                    else DateObj (new_Date h (field cols row (asc ''MATDATE''))))))"
proof -
  have row: "securities_row d = Some (cols, row)"
    using sec by (simp add: securities_row_def)
  have date: "\<And>column absent_msg unavailable_msg. column \<in> set cols \<Longrightarrow>
      date_of_doc h column absent_msg unavailable_msg d =
        Inr (if unavailable (field cols row column) then Str unavailable_msg
             else DateObj (new_Date h (field cols row column)))"
    using row by (simp add: date_of_doc_def unavailable_def field_def indexOf_absent)
  show ?thesis
    using enc resp
    by (simp add: fetchNextCouponInternal_def fetchMaturityDateInternal_def with_doc_def
        try_catch_def date)
qed

text \<open>
  \<open>NEXTCOUPON\<close> is \<open>0000-00-00\<close>: "no upcoming coupons". \<open>MATDATE\<close> is 2025-01-20:
  the Date of that day.
\<close>

theorem C7_sentinel_dates_witness:
  "uri_encodable (asc ''A'')
   \<and> fetch_securities dates_env (asc ''A'') =
       Response 200 (JsonDoc (empty_doc\<lparr>securities := Some dates_securities\<rparr>))
   \<and> rows dates_securities =
       Some [[String (asc ''0000-00-00''), String (asc ''2025-01-20'')]]
   \<and> snd (fetchNextCouponInternal dates_env (asc ''A'')) = Inr (Str msg_no_upcoming_coupons)
   \<and> snd (fetchMaturityDateInternal dates_env (asc ''A'')) =
       Inr (DateObj (Time 1737331200000))"
proof -
  have enc: "uri_encodable (asc ''A'')"
    by (simp add: asc_def)
  have resp: "fetch_securities dates_env (asc ''A'') =
       Response 200 (JsonDoc (empty_doc\<lparr>securities := Some dates_securities\<rparr>))"
    by (simp add: dates_env_def)
  have sec: "securities (empty_doc\<lparr>securities := Some dates_securities\<rparr>) =
       Some dates_securities"
    "columns dates_securities = Some [asc ''NEXTCOUPON'', asc ''MATDATE'']"
    "rows dates_securities = Some [[String (asc ''0000-00-00''), String (asc ''2025-01-20'')]]"
    by (simp_all add: dates_securities_def)
  have cells:
    "field [asc ''NEXTCOUPON'', asc ''MATDATE'']
       [String (asc ''0000-00-00''), String (asc ''2025-01-20'')] (asc ''NEXTCOUPON'') =
     String (asc ''0000-00-00'')"
    "field [asc ''NEXTCOUPON'', asc ''MATDATE'']
       [String (asc ''0000-00-00''), String (asc ''2025-01-20'')] (asc ''MATDATE'') =
     String (asc ''2025-01-20'')"
    by (simp_all add: field_def cell_at_def asc_def)
  have parse: "Date_parse dates_env (asc ''2025-01-20'') = Time 1737331200000"
    by (simp add: dates_env_def demo_env_def demo_Date_parse_def demo_dates_def asc_def)
  have ne: "\<not> unavailable (String (asc ''2025-01-20''))"
    "unavailable (String (asc ''0000-00-00''))"
    by (simp_all add: unavailable_def asc_def)
  from C7_sentinel_dates [OF enc resp sec]
  have "snd (fetchNextCouponInternal dates_env (asc ''A'')) = Inr (Str msg_no_upcoming_coupons)"
    and "snd (fetchMaturityDateInternal dates_env (asc ''A'')) =
           Inr (DateObj (Time 1737331200000))"
    by (simp_all add: cells parse ne)
  with enc resp sec(3) show ?thesis by simp
qed

section \<open>Blank tickers\<close>

lemma all_dropWhile: "(\<forall>x\<in>set (dropWhile P s). P x) = (\<forall>x\<in>set s. P x)"
proof
  assume a: "\<forall>x\<in>set (dropWhile P s). P x"
  have "dropWhile P s = []"
  proof (rule ccontr)
    assume ne: "dropWhile P s \<noteq> []"
    then have "\<not> P (hd (dropWhile P s))" by (rule hd_dropWhile)
    moreover have "hd (dropWhile P s) \<in> set (dropWhile P s)" using ne by (rule hd_in_set)
    ultimately show False using a by blast
  qed
  then show "\<forall>x\<in>set s. P x" by simp
next
  assume "\<forall>x\<in>set s. P x"
  then show "\<forall>x\<in>set (dropWhile P s). P x" by (blast dest: set_dropWhileD)
qed

lemma blank_iff: "blank s = list_all is_ws s"
  by (auto simp: blank_def trim_def all_dropWhile list_all_iff)

lemma not_blank_A: "\<not> blank (asc ''A'')"
  by (simp add: blank_iff is_ws_def asc_def)

text \<open>
  Claim C3, as amended. For every blank or whitespace-only ticker, \<open>GET_MOEX_PRICE\<close>,
  \<open>GET_NEXT_COUPON\<close>, \<open>GET_MOEX_NAME\<close>, \<open>GET_COUPON_VALUE\<close> and
  \<open>GET_MATURITY_DATE\<close> return \<open>null\<close>, issue no request and leave the cache as it
  was. \<open>GET_NEAREST_OPTION_DATE\<close> has its own guard: for the empty ticker it returns
  the text "specify a ticker", not \<open>null\<close>, also with no request.
\<close>

theorem C3_blank_ticker:
  assumes "list_all is_ws ticker"
  shows "GET_MOEX_PRICE h c n ticker = quiet (Prim Null) c n
       \<and> GET_NEXT_COUPON h c n ticker = quiet (Prim Null) c n
       \<and> GET_MOEX_NAME h c n ticker = quiet (Prim Null) c n
       \<and> GET_COUPON_VALUE h c n ticker = quiet (Prim Null) c n
       \<and> GET_MATURITY_DATE h c n ticker = quiet (Prim Null) c n
       \<and> GET_NEAREST_OPTION_DATE h c n [] = quiet (Str msg_specify_ticker) c n"
  using assms
  by (simp add: blank_iff [symmetric] GET_MOEX_PRICE_def GET_NEXT_COUPON_def GET_MOEX_NAME_def
      GET_COUPON_VALUE_def GET_MATURITY_DATE_def GET_NEAREST_OPTION_DATE_def quiet_def)

text \<open>
  The claim as stated fails for \<open>GET_NEAREST_OPTION_DATE\<close>: the empty ticker does not
  give \<open>null\<close>, and a ticker of one space reaches the network.
\<close>

theorem C3_blank_ticker_counterexample:
  "list_all is_ws []
   \<and> returned (GET_NEAREST_OPTION_DATE demo_env empty_cache None []) \<noteq> Inr (Prim Null)
   \<and> list_all is_ws [32]
   \<and> requests (GET_NEAREST_OPTION_DATE demo_env empty_cache None [32]) \<noteq> []"
  by (simp add: GET_NEAREST_OPTION_DATE_def fetchBondOptionDatesInternal_def is_ws_def
      split: prod.splits sum.splits option_result.splits)

theorem C3_blank_ticker_witness:
  "list_all is_ws [32, 9]
   \<and> returned (GET_MOEX_PRICE price_env empty_cache None [32, 9]) = Inr (Prim Null)
   \<and> requests (GET_MOEX_PRICE price_env empty_cache None [32, 9]) = []
   \<and> GET_NEAREST_OPTION_DATE price_env empty_cache None [] =
       quiet (Str msg_specify_ticker) empty_cache None"
proof -
  have ws: "list_all is_ws [32, 9]" by (simp add: is_ws_def)
  from C3_blank_ticker [OF ws, of price_env empty_cache None]
  show ?thesis using ws by (simp add: quiet_def)
qed

section \<open>The cache\<close>

lemma price_example:
  "fetchSinglePriceInternal price_env (asc ''A'') =
     ([(SecuritiesEndpoint, asc ''A'')], Inr (Num (Fin (203 / 2))))"
  by (simp add: fetchSinglePriceInternal_def with_doc_def try_catch_def price_env_def
      demo_env_def price_doc_def empty_doc_def price_marketdata_def price_securities_def
      price_of_doc_def price_chain_def asc_def cell_at_def)

lemma events_example:
  "fetchBondOptionDatesInternal events_env (asc ''A'') =
     ([(BondizationEndpoint, asc ''A'')], Inr (OptDates (Time 1736899200000) events_note))"
  by (simp add: fetchBondOptionDatesInternal_def with_doc_def try_catch_def events_env_def
      demo_env_def events_doc_def empty_doc_def events_amortizations_def events_offers_def
      options_of_doc_def amort_events_def offer_events_def amort_event_def offer_event_def
      List.map_filter_def asc_def cell_at_def demo_Date_parse_def demo_dates_def
      sort_by_date_def valid_date_def sort_compare_def unique_def events_note_def
      label_amortization_def label_offer_def msg_nearest_def)

text \<open>
  Claim C4, as amended. For a ticker that is not blank, \<open>GET_MOEX_PRICE\<close>,
  \<open>GET_NEXT_COUPON\<close>, \<open>GET_MOEX_NAME\<close>, \<open>GET_COUPON_VALUE\<close> and
  \<open>GET_MATURITY_DATE\<close> go through the cache, each under its own key: a hit is answered
  from the cached text with no request, a miss runs the resolver and stores its result
  under the key before returning it. \<open>GET_NEAREST_OPTION_DATE\<close> does not: it never
  writes the cache, its result does not depend on the cache, and it always runs its
  resolver.
\<close>

theorem C4_cache_then_resolve:
  assumes "\<not> blank ticker"
  shows "through_cache (GET_MOEX_PRICE h c n ticker) c n ticker
           (\<lambda>text. map_sum id Prim (JSON_parse h text))
           (fetchSinglePriceInternal h ticker) (JSON_stringify h)
       \<and> through_cache (GET_NEXT_COUPON h c n ticker) c n (ticker @ asc ''_coupon'')
           (date_from_cache h) (fetchNextCouponInternal h ticker) (JSON_stringify h)
       \<and> through_cache (GET_MOEX_NAME h c n ticker) c n (ticker @ asc ''_name'')
           (\<lambda>text. Inr (Str text))
           (map_prod id (map_sum id Prim) (fetchBondNameInternal h ticker)) (raw_text h)
       \<and> through_cache (GET_COUPON_VALUE h c n ticker) c n (ticker @ asc ''_coupon_value_v3'')
           (\<lambda>text. map_sum id Prim (JSON_parse h text))
           (fetchCouponValueInternal h ticker) (JSON_stringify h)
       \<and> through_cache (GET_MATURITY_DATE h c n ticker) c n (ticker @ asc ''_maturity'')
           (date_from_cache h) (fetchMaturityDateInternal h ticker) (JSON_stringify h)
       \<and> cache_after (GET_NEAREST_OPTION_DATE h c n ticker) = c
       \<and> returned (GET_NEAREST_OPTION_DATE h c n ticker) =
           returned (GET_NEAREST_OPTION_DATE h empty_cache n ticker)
       \<and> requests (GET_NEAREST_OPTION_DATE h c n ticker) =
           fst (fetchBondOptionDatesInternal h ticker)"
proof -
  have ne: "ticker \<noteq> []"
    using assms by (auto simp: blank_def)
  have p1: "through_cache (GET_MOEX_PRICE h c n ticker) c n ticker
           (\<lambda>text. map_sum id Prim (JSON_parse h text))
           (fetchSinglePriceInternal h ticker) (JSON_stringify h)"
    using assms
    by (simp add: through_cache_def GET_MOEX_PRICE_def split: option.splits prod.splits sum.splits)
  have p2: "through_cache (GET_NEXT_COUPON h c n ticker) c n (ticker @ asc ''_coupon'')
           (date_from_cache h) (fetchNextCouponInternal h ticker) (JSON_stringify h)"
    using assms
    by (simp add: through_cache_def GET_NEXT_COUPON_def split: option.splits prod.splits sum.splits)
  have p3: "through_cache (GET_MOEX_NAME h c n ticker) c n (ticker @ asc ''_name'')
           (\<lambda>text. Inr (Str text))
           (map_prod id (map_sum id Prim) (fetchBondNameInternal h ticker)) (raw_text h)"
    using assms
    by (simp add: through_cache_def GET_MOEX_NAME_def split: option.splits prod.splits sum.splits)
  have p4: "through_cache (GET_COUPON_VALUE h c n ticker) c n (ticker @ asc ''_coupon_value_v3'')
           (\<lambda>text. map_sum id Prim (JSON_parse h text))
           (fetchCouponValueInternal h ticker) (JSON_stringify h)"
    using assms
    by (simp add: through_cache_def GET_COUPON_VALUE_def split: option.splits prod.splits sum.splits)
  have p5: "through_cache (GET_MATURITY_DATE h c n ticker) c n (ticker @ asc ''_maturity'')
           (date_from_cache h) (fetchMaturityDateInternal h ticker) (JSON_stringify h)"
    using assms
    by (simp add: through_cache_def GET_MATURITY_DATE_def split: option.splits prod.splits sum.splits)
  have p6: "cache_after (GET_NEAREST_OPTION_DATE h c n ticker) = c"
    by (simp add: GET_NEAREST_OPTION_DATE_def split: prod.splits sum.splits option_result.splits)
  have p7: "returned (GET_NEAREST_OPTION_DATE h c n ticker) =
           returned (GET_NEAREST_OPTION_DATE h empty_cache n ticker)"
    by (simp add: GET_NEAREST_OPTION_DATE_def split: prod.splits sum.splits option_result.splits)
  have p8: "requests (GET_NEAREST_OPTION_DATE h c n ticker) =
           fst (fetchBondOptionDatesInternal h ticker)"
    using ne
    by (simp add: GET_NEAREST_OPTION_DATE_def split: prod.splits sum.splits option_result.splits)
  from p1 p2 p3 p4 p5 p6 p7 p8 show ?thesis by simp
qed

text \<open>
  The claim as stated fails for \<open>GET_NEAREST_OPTION_DATE\<close>: after a call that found a
  date the cache is still empty, and the next call fetches again.
\<close>

theorem C4_cache_then_resolve_counterexample:
  "\<not> blank (asc ''A'')
   \<and> returned (GET_NEAREST_OPTION_DATE events_env empty_cache None (asc ''A'')) =
       Inr (DateObj (Time 1736899200000))
   \<and> cache_after (GET_NEAREST_OPTION_DATE events_env empty_cache None (asc ''A'')) = empty_cache
   \<and> requests (GET_NEAREST_OPTION_DATE events_env
         (cache_after (GET_NEAREST_OPTION_DATE events_env empty_cache None (asc ''A'')))
         None (asc ''A'')) = [(BondizationEndpoint, asc ''A'')]"
proof -
  have ne: "asc ''A'' \<noteq> []" by (simp add: asc_def)
  from ne show ?thesis
    by (simp add: GET_NEAREST_OPTION_DATE_def events_example not_blank_A)
qed

text \<open>
  A price lookup on an empty cache stores the text \<open>101.5\<close> under the ticker; with
  that entry in the cache the lookup answers 101.5 and issues no request.
\<close>

theorem C4_cache_then_resolve_witness:
  "\<not> blank (asc ''A'')
   \<and> returned (GET_MOEX_PRICE price_env empty_cache None (asc ''A'')) = Inr (Num (Fin (203 / 2)))
   \<and> cache_after (GET_MOEX_PRICE price_env empty_cache None (asc ''A'')) =
       empty_cache(asc ''A'' \<mapsto> asc ''101.5'')
   \<and> requests (GET_MOEX_PRICE price_env empty_cache None (asc ''A'')) =
       [(SecuritiesEndpoint, asc ''A'')]
   \<and> GET_MOEX_PRICE price_env (empty_cache(asc ''A'' \<mapsto> asc ''101.5'')) None (asc ''A'') =
       quiet (Num (Fin (203 / 2))) (empty_cache(asc ''A'' \<mapsto> asc ''101.5'')) None"
proof -
  have "demo_JSON_stringify (Num (Fin (203 / 2))) = asc ''101.5''"
    by code_simp
  then have ser: "JSON_stringify price_env (Num (Fin (203 / 2))) = asc ''101.5''"
    by (simp add: price_env_def demo_env_def)
  have parsed: "JSON_parse price_env (asc ''101.5'') = Inr (Number (Fin (203 / 2)))"
    by (simp add: price_env_def demo_env_def demo_JSON_parse_def demo_number_def
        unsigned_number_def is_digit_def digits_value_def asc_def)
  from C4_cache_then_resolve [OF not_blank_A, of price_env empty_cache None]
  have miss: "GET_MOEX_PRICE price_env empty_cache None (asc ''A'') =
      \<lparr>returned = Inr (Num (Fin (203 / 2))),
       cache_after = empty_cache(asc ''A'' \<mapsto> asc ''101.5''),
       note_after = None, requests = [(SecuritiesEndpoint, asc ''A'')]\<rparr>"
    by (simp add: through_cache_def price_example ser empty_cache_def)
  from C4_cache_then_resolve [OF not_blank_A, of price_env
      "empty_cache(asc ''A'' \<mapsto> asc ''101.5'')" None]
  have hit: "GET_MOEX_PRICE price_env (empty_cache(asc ''A'' \<mapsto> asc ''101.5'')) None (asc ''A'') =
      quiet (Num (Fin (203 / 2))) (empty_cache(asc ''A'' \<mapsto> asc ''101.5'')) None"
    by (simp add: through_cache_def parsed quiet_def)
  from miss hit not_blank_A show ?thesis by simp
qed

section \<open>Cached dates\<close>




section \<open>What a result depends on\<close>

lemma engine_fns:
  assumes "same_engine h h'"
  shows "parseFloat h' = parseFloat h" and "to_string h' = to_string h"
    and "new_Date h' = new_Date h" and "throw h' = throw h"
    and "JSON_parse h' = JSON_parse h" and "sort_by_date h' = sort_by_date h"
proof -
  show "parseFloat h' = parseFloat h"
  proof
    fix v show "parseFloat h' v = parseFloat h v"
      using assms by (cases v) (simp_all add: same_engine_def)
  qed
  show "to_string h' = to_string h"
  proof
    fix v show "to_string h' v = to_string h v"
      using assms by (cases v) (simp_all add: same_engine_def)
  qed
  show "new_Date h' = new_Date h"
  proof
    fix v show "new_Date h' v = new_Date h v"
    proof (cases v)
      case (Number n)
      then show ?thesis by (cases n) simp_all
    qed (use assms in \<open>simp_all add: same_engine_def\<close>)
  qed
  show "throw h' = throw h"
    using assms by (intro ext) (simp add: throw_def same_engine_def)
  show "JSON_parse h' = JSON_parse h"
    using assms by (simp add: same_engine_def)
  show "sort_by_date h' = sort_by_date h"
    using assms by (intro ext) (simp add: sort_by_date_def same_engine_def)
qed

lemma engine_docs:
  assumes eng: "same_engine h h'"
  shows "with_doc h' = with_doc h" and "price_of_doc h' = price_of_doc h"
    and "date_of_doc h' = date_of_doc h" and "name_of_doc h' = name_of_doc h"
    and "coupon_stage1 h' = coupon_stage1 h" and "date_from_cache h' = date_from_cache h"
proof -
  show "with_doc h' = with_doc h"
    by (intro ext) (unfold with_doc_def engine_fns [OF eng], rule refl)
  show "price_of_doc h' = price_of_doc h"
    by (intro ext) (unfold price_of_doc_def price_chain_def engine_fns [OF eng], rule refl)
  show "date_of_doc h' = date_of_doc h"
    by (intro ext) (unfold date_of_doc_def engine_fns [OF eng], rule refl)
  show "name_of_doc h' = name_of_doc h"
    by (intro ext) (unfold name_of_doc_def, rule refl)
  show "coupon_stage1 h' = coupon_stage1 h"
    by (intro ext) (unfold coupon_stage1_def engine_fns [OF eng], rule refl)
  show "date_from_cache h' = date_from_cache h"
    by (intro ext) (unfold date_from_cache_def engine_fns [OF eng], rule refl)
qed

lemma engine_dated_docs:
  assumes eng: "same_engine h h'" and day: "today h' = today h"
  shows "coupon_of_doc h' = coupon_of_doc h" and "options_of_doc h' = options_of_doc h"
proof -
  show "coupon_of_doc h' = coupon_of_doc h"
    by (intro ext)
      (unfold coupon_of_doc_def coupon_of_row_def engine_fns [OF eng] day, rule refl)
  show "options_of_doc h' = options_of_doc h"
    by (intro ext)
      (unfold options_of_doc_def amort_events_def offer_events_def amort_event_def
        offer_event_def engine_fns [OF eng] day, rule refl)
qed

lemma same_fetches:
  assumes eng: "same_engine h h'" and api: "same_answers h h' ticker"
  shows "fetchSinglePriceInternal h' ticker = fetchSinglePriceInternal h ticker"
    and "fetchNextCouponInternal h' ticker = fetchNextCouponInternal h ticker"
    and "fetchMaturityDateInternal h' ticker = fetchMaturityDateInternal h ticker"
    and "fetchBondNameInternal h' ticker = fetchBondNameInternal h ticker"
proof -
  from api have sec: "fetch_securities h' ticker = fetch_securities h ticker"
    by (simp add: same_answers_def)
  show "fetchSinglePriceInternal h' ticker = fetchSinglePriceInternal h ticker"
    unfolding fetchSinglePriceInternal_def engine_docs [OF eng] engine_fns [OF eng] sec ..
  show "fetchNextCouponInternal h' ticker = fetchNextCouponInternal h ticker"
    unfolding fetchNextCouponInternal_def engine_docs [OF eng] engine_fns [OF eng] sec ..
  show "fetchMaturityDateInternal h' ticker = fetchMaturityDateInternal h ticker"
    unfolding fetchMaturityDateInternal_def engine_docs [OF eng] engine_fns [OF eng] sec ..
  show "fetchBondNameInternal h' ticker = fetchBondNameInternal h ticker"
    unfolding fetchBondNameInternal_def engine_docs [OF eng] engine_fns [OF eng] sec ..
qed

lemma same_dated_fetches:
  assumes eng: "same_engine h h'" and api: "same_answers h h' ticker"
    and day: "today h' = today h"
  shows "fetchCouponFromBondization h' ticker = fetchCouponFromBondization h ticker"
    and "fetchCouponValueInternal h' ticker = fetchCouponValueInternal h ticker"
    and "fetchBondOptionDatesInternal h' ticker = fetchBondOptionDatesInternal h ticker"
proof -
  from api have sec: "fetch_securities h' ticker = fetch_securities h ticker"
    and bond: "fetch_bondization h' ticker = fetch_bondization h ticker"
    by (simp_all add: same_answers_def)
  show b: "fetchCouponFromBondization h' ticker = fetchCouponFromBondization h ticker"
    unfolding fetchCouponFromBondization_def engine_docs [OF eng] engine_fns [OF eng]
      engine_dated_docs [OF eng day] bond ..
  show "fetchCouponValueInternal h' ticker = fetchCouponValueInternal h ticker"
    unfolding fetchCouponValueInternal_def engine_docs [OF eng] engine_fns [OF eng] sec b ..
  show "fetchBondOptionDatesInternal h' ticker = fetchBondOptionDatesInternal h ticker"
    unfolding fetchBondOptionDatesInternal_def engine_docs [OF eng] engine_fns [OF eng]
      engine_dated_docs [OF eng day] bond ..
qed

lemma floater_coupon:
  "fetchCouponValueInternal floater_env (asc ''A'') =
     ([(SecuritiesEndpoint, asc ''A''), (BondizationEndpoint, asc ''A'')], Inr (Num (Fin 50)))"
  by (simp add: fetchCouponValueInternal_def fetchCouponFromBondization_def with_doc_def
      try_catch_def floater_env_def coupon_stage1_def securities_row_def floater_securities_def
      schedule_env_def demo_env_def schedule_doc_def schedule_block_def empty_doc_def
      coupon_of_doc_def schedule_cols_def schedule_rows_def asc_def cell_at_def
      coupon_of_row_def demo_Date_parse_def demo_dates_def sort_by_date_def valid_date_def sort_compare_def
      isNaN_def is_zero_def)

lemma later_coupon:
  "fetchCouponValueInternal later_env (asc ''A'') =
     ([(SecuritiesEndpoint, asc ''A''), (BondizationEndpoint, asc ''A'')], Inr (Num (Fin 60)))"
  by (simp add: fetchCouponValueInternal_def fetchCouponFromBondization_def with_doc_def
      try_catch_def later_env_def floater_env_def coupon_stage1_def securities_row_def
      floater_securities_def
      schedule_env_def demo_env_def schedule_doc_def schedule_block_def empty_doc_def
      coupon_of_doc_def schedule_cols_def schedule_rows_def asc_def cell_at_def
      coupon_of_row_def demo_Date_parse_def demo_dates_def sort_by_date_def valid_date_def sort_compare_def
      isNaN_def is_zero_def)

text \<open>
  Claim C9, as amended. The result of a lookup is determined by the ticker, the answers
  of the API for that ticker and the cache entry under the lookup's key; for
  \<open>GET_COUPON_VALUE\<close> and \<open>GET_NEAREST_OPTION_DATE\<close> also by the current date, which
  the coupon scan and the event filter read from the clock. Nothing else matters: not
  the other cache entries, not the API's answers for other tickers, not the note, not
  whether a note can be set.
\<close>

theorem C9_determined_by_inputs:
  assumes eng: "same_engine h h'" and api: "same_answers h h' ticker"
  shows "(c' ticker = c ticker \<longrightarrow>
            returned (GET_MOEX_PRICE h' c' n' ticker) = returned (GET_MOEX_PRICE h c n ticker))
       \<and> (c' (ticker @ asc ''_coupon'') = c (ticker @ asc ''_coupon'') \<longrightarrow>
            returned (GET_NEXT_COUPON h' c' n' ticker) = returned (GET_NEXT_COUPON h c n ticker))
       \<and> (c' (ticker @ asc ''_name'') = c (ticker @ asc ''_name'') \<longrightarrow>
            returned (GET_MOEX_NAME h' c' n' ticker) = returned (GET_MOEX_NAME h c n ticker))
       \<and> (c' (ticker @ asc ''_maturity'') = c (ticker @ asc ''_maturity'') \<longrightarrow>
            returned (GET_MATURITY_DATE h' c' n' ticker) =
            returned (GET_MATURITY_DATE h c n ticker))
       \<and> (today h' = today h
            \<and> c' (ticker @ asc ''_coupon_value_v3'') = c (ticker @ asc ''_coupon_value_v3'') \<longrightarrow>
            returned (GET_COUPON_VALUE h' c' n' ticker) =
            returned (GET_COUPON_VALUE h c n ticker))
       \<and> (today h' = today h \<longrightarrow>
            returned (GET_NEAREST_OPTION_DATE h' c' n' ticker) =
            returned (GET_NEAREST_OPTION_DATE h c n ticker))"
proof -
  have parse: "JSON_parse h' = JSON_parse h"
    using eng by (simp add: same_engine_def)
  have p1: "c' ticker = c ticker \<Longrightarrow>
      returned (GET_MOEX_PRICE h' c' n' ticker) = returned (GET_MOEX_PRICE h c n ticker)"
    by (simp add: GET_MOEX_PRICE_def same_fetches [OF eng api] parse
        split: option.splits prod.splits sum.splits)
  have p2: "c' (ticker @ asc ''_coupon'') = c (ticker @ asc ''_coupon'') \<Longrightarrow>
      returned (GET_NEXT_COUPON h' c' n' ticker) = returned (GET_NEXT_COUPON h c n ticker)"
    by (simp add: GET_NEXT_COUPON_def same_fetches [OF eng api] engine_docs [OF eng]
        split: option.splits prod.splits sum.splits)
  have p3: "c' (ticker @ asc ''_name'') = c (ticker @ asc ''_name'') \<Longrightarrow>
      returned (GET_MOEX_NAME h' c' n' ticker) = returned (GET_MOEX_NAME h c n ticker)"
    by (simp add: GET_MOEX_NAME_def same_fetches [OF eng api]
        split: option.splits prod.splits sum.splits)
  have p4: "c' (ticker @ asc ''_maturity'') = c (ticker @ asc ''_maturity'') \<Longrightarrow>
      returned (GET_MATURITY_DATE h' c' n' ticker) = returned (GET_MATURITY_DATE h c n ticker)"
    by (simp add: GET_MATURITY_DATE_def same_fetches [OF eng api] engine_docs [OF eng]
        split: option.splits prod.splits sum.splits)
  have p5: "today h' = today h \<Longrightarrow>
      c' (ticker @ asc ''_coupon_value_v3'') = c (ticker @ asc ''_coupon_value_v3'') \<Longrightarrow>
      returned (GET_COUPON_VALUE h' c' n' ticker) = returned (GET_COUPON_VALUE h c n ticker)"
    by (simp add: GET_COUPON_VALUE_def same_dated_fetches [OF eng api] parse
        split: option.splits prod.splits sum.splits)
  have p6: "today h' = today h \<Longrightarrow>
      returned (GET_NEAREST_OPTION_DATE h' c' n' ticker) =
      returned (GET_NEAREST_OPTION_DATE h c n ticker)"
    by (simp add: GET_NEAREST_OPTION_DATE_def same_dated_fetches [OF eng api]
        split: prod.splits sum.splits option_result.splits)
  from p1 p2 p3 p4 p5 p6 show ?thesis by blast
qed

text \<open>
  The claim as stated fails: the same ticker, the same API answers and the same (empty)
  cache give 50 on 2025-01-10 and 60 a day later.
\<close>

theorem C9_determined_by_inputs_counterexample:
  "same_engine floater_env later_env
   \<and> same_answers floater_env later_env (asc ''A'')
   \<and> returned (GET_COUPON_VALUE floater_env empty_cache None (asc ''A'')) = Inr (Num (Fin 50))
   \<and> returned (GET_COUPON_VALUE later_env empty_cache None (asc ''A'')) = Inr (Num (Fin 60))"
proof -
  have "same_engine floater_env later_env" "same_answers floater_env later_env (asc ''A'')"
    by (simp_all add: same_engine_def same_answers_def later_env_def)
  moreover have "returned (GET_COUPON_VALUE floater_env empty_cache None (asc ''A'')) =
      Inr (Num (Fin 50))"
    using not_blank_A by (simp add: GET_COUPON_VALUE_def empty_cache_def floater_coupon)
  moreover have "returned (GET_COUPON_VALUE later_env empty_cache None (asc ''A'')) =
      Inr (Num (Fin 60))"
    using not_blank_A by (simp add: GET_COUPON_VALUE_def empty_cache_def later_coupon)
  ultimately show ?thesis by simp
qed

theorem C9_determined_by_inputs_witness:
  "same_engine floater_env noted_env
   \<and> same_answers floater_env noted_env (asc ''A'')
   \<and> today noted_env = today floater_env
   \<and> other_cache (asc ''A'' @ asc ''_coupon_value_v3'') =
       empty_cache (asc ''A'' @ asc ''_coupon_value_v3'')
   \<and> returned (GET_COUPON_VALUE noted_env other_cache (Some (asc ''note'')) (asc ''A'')) =
       Inr (Num (Fin 50))"
proof -
  have eng: "same_engine floater_env noted_env"
    and api: "same_answers floater_env noted_env (asc ''A'')"
    and day: "today noted_env = today floater_env"
    by (simp_all add: same_engine_def same_answers_def noted_env_def)
  have key: "other_cache (asc ''A'' @ asc ''_coupon_value_v3'') =
       empty_cache (asc ''A'' @ asc ''_coupon_value_v3'')"
    by (simp add: other_cache_def empty_cache_def asc_def)
  have base: "returned (GET_COUPON_VALUE floater_env empty_cache None (asc ''A'')) =
      Inr (Num (Fin 50))"
    using not_blank_A by (simp add: GET_COUPON_VALUE_def empty_cache_def floater_coupon)
  from C9_determined_by_inputs [OF eng api, of other_cache empty_cache "Some (asc ''note'')" None]
    day key base
  have "returned (GET_COUPON_VALUE noted_env other_cache (Some (asc ''note'')) (asc ''A'')) =
       Inr (Num (Fin 50))"
    by simp
  with eng api day key show ?thesis by simp
qed

section \<open>Nearest offer or amortization\<close>

lemma on_or_after_iff: "on_or_after t d = (valid_date d \<and> t \<le> time_of d)"
  by (cases d) (simp_all add: valid_date_def)

lemma amort_event_eq:
  "amort_event h (indexOf cols (asc ''amortdate'')) row =
     (if upcoming h (field cols row (asc ''amortdate'')) then Some (amort_of h cols row) else None)"
  by (simp add: amort_event_def amort_of_def upcoming_def parseable_def field_def
      on_or_after_iff Let_def)

lemma offer_event_eq:
  "offer_event h (indexOf cols (asc ''offerdate'')) (indexOf cols (asc ''offertype'')) row =
     (if upcoming h (field cols row (asc ''offerdate'')) then Some (offer_of h cols row) else None)"
proof -
  have "(indexOf cols (asc ''offertype'') \<noteq> - 1
          \<and> truthy (cell_at row (indexOf cols (asc ''offertype''))))
        = truthy (field cols row (asc ''offertype''))"
    by (auto simp: field_def cell_at_def)
  then show ?thesis
    by (simp add: offer_event_def offer_of_def offer_label_def upcoming_def parseable_def
        field_def on_or_after_iff Let_def)
qed

lemma map_filter_if:
  "List.map_filter (\<lambda>x. if P x then Some (f x) else None) xs = map f (filter P xs)"
  by (induction xs) (simp_all add: List.map_filter_def)

lemma amort_events_kept:
  "amort_events h blk = kept h blk (asc ''amortdate'') (amort_of h)"
  by (simp add: amort_events_def kept_def table_def amort_event_eq [abs_def] map_filter_if
      indexOf_absent split: option.splits)

lemma offer_events_kept:
  "offer_events h blk = kept h blk (asc ''offerdate'') (offer_of h)"
  by (simp add: offer_events_def kept_def table_def offer_event_eq [abs_def] map_filter_if
      indexOf_absent split: option.splits)

lemma kept_valid:
  assumes "\<And>cols row. e_date (build cols row) = new_Date h (field cols row date_column)"
  shows "list_all (\<lambda>e. valid_date (e_date e)) (kept h blk date_column build)"
  using assms
  by (auto simp: kept_def list_all_iff upcoming_def parseable_def split: option.splits)

lemma spec_events_valid: "list_all (\<lambda>e. valid_date (e_date e)) (spec_events h d)"
  by (simp add: spec_events_def kept_valid amort_of_def offer_of_def)

lemma hd_sort_key_Min:
  assumes "xs \<noteq> []"
  shows "f (hd (sort_key f xs)) = Min (set (map f xs))"
proof -
  let ?s = "sort_key f xs"
  have ne: "?s \<noteq> []" using assms by (metis length_sort list.size(3) length_0_conv)
  have srt: "sorted (map f ?s)" by simp
  have "Min (set (map f ?s)) = hd (map f ?s)"
  proof (rule Min_eqI)
    show "finite (set (map f ?s))" by simp
    show "hd (map f ?s) \<in> set (map f ?s)" by (rule hd_in_set) (use ne in simp)
    fix y assume "y \<in> set (map f ?s)"
    with srt ne show "hd (map f ?s) \<le> y"
      by (cases "map f ?s") auto
  qed
  moreover have "set (map f ?s) = set (map f xs)" by simp
  moreover have "hd (map f ?s) = f (hd ?s)" using ne by (simp add: hd_map)
  ultimately show ?thesis by simp
qed

lemma unique_from_props:
  "distinct (unique_from seen xs) \<and> set (unique_from seen xs) = set xs - set seen"
  by (induction xs arbitrary: seen) auto

lemma unique_props: "distinct (unique xs) \<and> set (unique xs) = set xs"
  using unique_from_props [of "[]" xs] by (simp add: unique_def)

text \<open>
  Claim C6. For every bondization response that was fetched and parsed, the
  nearest-event resolver keeps the amortization rows with a parseable \<open>amortdate\<close> and
  the offer rows with a parseable \<open>offerdate\<close> dated today or later. When none is kept
  it returns the text "no offers/amortizations", with the bondization request as its only
  request (no maturity date is looked up). Otherwise it returns the least date of the
  kept events and the note: the distinct descriptions in the order of the stable sort by
  date of the amortizations followed by the offers, then the line naming the nearest
  event.
\<close>

theorem C6_nearest_event:
  assumes enc: "uri_encodable ticker"
    and resp: "fetch_bondization h ticker = Response 200 (JsonDoc d)"
  shows "fetchBondOptionDatesInternal h ticker =
           ([(BondizationEndpoint, ticker)], Inr (spec_nearest h d))"
proof -
  let ?evs = "spec_events h d"
  let ?key = "\<lambda>e. time_of (e_date e)"
  have evs: "amort_events h (amortizations d) @ offer_events h (offers d) = ?evs"
    by (simp add: spec_events_def amort_events_kept offer_events_kept)
  have srt: "sort_by_date h e_date ?evs = sort_key ?key ?evs"
    using spec_events_valid by (rule sort_by_date_valid)
  have "options_of_doc h d = Inr (spec_nearest h d)"
  proof (cases "?evs = []")
    case True
    then show ?thesis
      by (simp add: options_of_doc_def evs spec_nearest_def)
  next
    case False
    then have ne: "sort_key ?key ?evs \<noteq> []"
      by (metis length_sort list.size(3) length_0_conv)
    have "hd (sort_key ?key ?evs) \<in> set ?evs"
      using ne by (metis hd_in_set set_sort)
    with spec_events_valid have "valid_date (e_date (hd (sort_key ?key ?evs)))"
      by (simp add: list_all_iff)
    then have "e_date (hd (sort_key ?key ?evs)) = Time (?key (hd (sort_key ?key ?evs)))"
      by (cases "e_date (hd (sort_key ?key ?evs))") (simp_all add: valid_date_def)
    also have "?key (hd (sort_key ?key ?evs)) = Min (set (map ?key ?evs))"
      using False by (rule hd_sort_key_Min)
    finally have date: "e_date (hd (sort_key ?key ?evs)) = Time (Min (set (map ?key ?evs)))" .
    from False show ?thesis
      by (simp add: options_of_doc_def evs srt spec_nearest_def spec_note_def Let_def date)
  qed
  then show ?thesis
    using enc resp
    by (simp add: fetchBondOptionDatesInternal_def with_doc_def try_catch_def)
qed

text \<open>
  The example of the specification: an amortization in five days and an offer in ten
  give the amortization's date, with the amortization first in the note and named as
  nearest in its last line. And a response with no events gives the error text.
\<close>

theorem C6_nearest_event_witness:
  "uri_encodable (asc ''A'')
   \<and> fetch_bondization events_env (asc ''A'') = Response 200 (JsonDoc events_doc)
   \<and> fetchBondOptionDatesInternal events_env (asc ''A'') =
       ([(BondizationEndpoint, asc ''A'')], Inr (OptDates (Time 1736899200000) events_note))
   \<and> fetch_bondization demo_env (asc ''A'') = Response 200 (JsonDoc empty_doc)
   \<and> fetchBondOptionDatesInternal demo_env (asc ''A'') =
       ([(BondizationEndpoint, asc ''A'')], Inr (OptError msg_no_events))"
proof -
  have enc: "uri_encodable (asc ''A'')"
    by (simp add: asc_def)
  have resp: "fetch_bondization events_env (asc ''A'') = Response 200 (JsonDoc events_doc)"
    by (simp add: events_env_def)
  have resp0: "fetch_bondization demo_env (asc ''A'') = Response 200 (JsonDoc empty_doc)"
    by (simp add: demo_env_def)
  have evs: "spec_events events_env events_doc =
      [\<lparr>e_date = Time 1736899200000, e_type = String label_amortization,
        e_description = label_amortization @ asc '': 2025-01-15''\<rparr>,
       \<lparr>e_date = Time 1737331200000, e_type = String label_offer,
        e_description = label_offer @ asc '': 2025-01-20''\<rparr>,
       \<lparr>e_date = Time 1737331200000, e_type = String label_offer,
        e_description = label_offer @ asc '': 2025-01-20''\<rparr>]"
    by (simp add: spec_events_def kept_def table_def events_doc_def empty_doc_def
        events_amortizations_def events_offers_def upcoming_def parseable_def valid_date_def
        field_def cell_at_def asc_def events_env_def demo_env_def demo_Date_parse_def
        demo_dates_def amort_of_def offer_of_def offer_label_def)
  have near: "spec_nearest events_env events_doc = OptDates (Time 1736899200000) events_note"
    by (simp add: spec_nearest_def evs spec_note_def unique_def events_note_def asc_def
        label_amortization_def label_offer_def msg_nearest_def)
  have none: "spec_nearest demo_env empty_doc = OptError msg_no_events"
    by (simp add: spec_nearest_def spec_events_def kept_def table_def empty_doc_def)
  from C6_nearest_event [OF enc resp] C6_nearest_event [OF enc resp0] enc resp resp0
  show ?thesis by (simp add: near none)
qed

section \<open>Exceptions that reach the caller\<close>

lemma demo_name:
  "fetchBondNameInternal demo_env (asc ''A'') =
     ([(SecuritiesEndpoint, asc ''A'')], Inr (String msg_ticker_not_found))"
  by (simp add: fetchBondNameInternal_def with_doc_def try_catch_def demo_env_def
      empty_doc_def name_of_doc_def securities_row_def asc_def)

text \<open>
  Where nothing escapes: a fetch function whose URL can be built returns a value for
  every behaviour of the API, and so does a lookup that misses the cache. The URL cannot
  be built for a ticker with an unpaired surrogate, and then every fetch function
  throws.
\<close>

lemma fetch_returns:
  assumes "uri_encodable ticker"
  shows "\<exists>v. snd (fetchSinglePriceInternal h ticker) = Inr v"
    and "\<exists>v. snd (fetchNextCouponInternal h ticker) = Inr v"
    and "\<exists>v. snd (fetchBondNameInternal h ticker) = Inr v"
    and "\<exists>v. snd (fetchCouponFromBondization h ticker) = Inr v"
    and "\<exists>v. snd (fetchCouponValueInternal h ticker) = Inr v"
    and "\<exists>v. snd (fetchMaturityDateInternal h ticker) = Inr v"
    and "\<exists>v. snd (fetchBondOptionDatesInternal h ticker) = Inr v"
  using assms
  by (simp_all add: fetchSinglePriceInternal_def fetchNextCouponInternal_def
      fetchBondNameInternal_def fetchCouponFromBondization_def fetchCouponValueInternal_def
      fetchMaturityDateInternal_def fetchBondOptionDatesInternal_def
      split: sum.splits option.splits prod.splits)

lemma fetch_throws:
  assumes "\<not> uri_encodable ticker"
  shows "fetchSinglePriceInternal h ticker = ([], throw h URIError)"
    and "fetchNextCouponInternal h ticker = ([], throw h URIError)"
    and "fetchBondNameInternal h ticker = ([], throw h URIError)"
    and "fetchCouponFromBondization h ticker = ([], throw h URIError)"
    and "fetchCouponValueInternal h ticker = ([], throw h URIError)"
    and "fetchMaturityDateInternal h ticker = ([], throw h URIError)"
    and "fetchBondOptionDatesInternal h ticker = ([], throw h URIError)"
  using assms
  by (simp_all add: fetchSinglePriceInternal_def fetchNextCouponInternal_def
      fetchBondNameInternal_def fetchCouponFromBondization_def fetchCouponValueInternal_def
      fetchMaturityDateInternal_def fetchBondOptionDatesInternal_def)

lemma lookup_returns_on_miss:
  assumes "uri_encodable ticker"
  shows "c ticker = None \<Longrightarrow> \<exists>v. returned (GET_MOEX_PRICE h c n ticker) = Inr v"
    and "c (ticker @ asc ''_coupon'') = None \<Longrightarrow>
         \<exists>v. returned (GET_NEXT_COUPON h c n ticker) = Inr v"
    and "\<exists>v. returned (GET_MOEX_NAME h c n ticker) = Inr v"
    and "c (ticker @ asc ''_coupon_value_v3'') = None \<Longrightarrow>
         \<exists>v. returned (GET_COUPON_VALUE h c n ticker) = Inr v"
    and "c (ticker @ asc ''_maturity'') = None \<Longrightarrow>
         \<exists>v. returned (GET_MATURITY_DATE h c n ticker) = Inr v"
    and "\<exists>v. returned (GET_NEAREST_OPTION_DATE h c n ticker) = Inr v"
proof -
  note f = fetch_returns [OF assms, of h]
  show "c ticker = None \<Longrightarrow> \<exists>v. returned (GET_MOEX_PRICE h c n ticker) = Inr v"
    using f(1) by (auto simp: GET_MOEX_PRICE_def split: prod.splits sum.splits)
  show "c (ticker @ asc ''_coupon'') = None \<Longrightarrow>
         \<exists>v. returned (GET_NEXT_COUPON h c n ticker) = Inr v"
    using f(2) by (auto simp: GET_NEXT_COUPON_def split: prod.splits sum.splits)
  show "\<exists>v. returned (GET_MOEX_NAME h c n ticker) = Inr v"
    using f(3) by (auto simp: GET_MOEX_NAME_def split: prod.splits sum.splits option.splits)
  show "c (ticker @ asc ''_coupon_value_v3'') = None \<Longrightarrow>
         \<exists>v. returned (GET_COUPON_VALUE h c n ticker) = Inr v"
    using f(5) by (auto simp: GET_COUPON_VALUE_def split: prod.splits sum.splits)
  show "c (ticker @ asc ''_maturity'') = None \<Longrightarrow>
         \<exists>v. returned (GET_MATURITY_DATE h c n ticker) = Inr v"
    using f(6) by (auto simp: GET_MATURITY_DATE_def split: prod.splits sum.splits)
  show "\<exists>v. returned (GET_NEAREST_OPTION_DATE h c n ticker) = Inr v"
    using f(7)
    by (auto simp: GET_NEAREST_OPTION_DATE_def split: prod.splits sum.splits option_result.splits)
qed

text \<open>
  Claim C8 does not hold of the code. \<open>GET_MOEX_NAME\<close> stores its result as it is,
  under the ticker followed by \<open>_name\<close>, while \<open>GET_MOEX_PRICE\<close> reads the entry
  under the ticker itself as JSON, outside any \<open>try\<close>: after a name lookup of \<open>A\<close>
  that found nothing, the price lookup of \<open>A_name\<close> throws the SyntaxError of
  \<open>JSON.parse\<close>. And every fetch function builds its URL before its \<open>try\<close>, so a
  ticker with an unpaired surrogate makes \<open>encodeURIComponent\<close> throw a URIError that
  nothing catches.
\<close>

theorem C8_exception_reaches_caller:
  "returned (GET_MOEX_NAME demo_env empty_cache None (asc ''A'')) =
     Inr (Str msg_ticker_not_found)
   \<and> returned (GET_MOEX_PRICE demo_env
         (cache_after (GET_MOEX_NAME demo_env empty_cache None (asc ''A''))) None
         (asc ''A_name'')) = Inl (Exn SyntaxError (asc ''Unexpected token''))
   \<and> fetchSinglePriceInternal demo_env [55296] = ([], Inl (Exn URIError (asc ''URI malformed'')))"
proof -
  have nb: "\<not> blank (asc ''A_name'')"
    by (simp add: blank_iff is_ws_def asc_def)
  have key: "asc ''A'' @ asc ''_name'' = asc ''A_name''"
    by (simp add: asc_def)
  have name: "GET_MOEX_NAME demo_env empty_cache None (asc ''A'') =
      \<lparr>returned = Inr (Str msg_ticker_not_found),
       cache_after = empty_cache(asc ''A_name'' \<mapsto> msg_ticker_not_found),
       note_after = None, requests = [(SecuritiesEndpoint, asc ''A'')]\<rparr>"
    using not_blank_A by (simp add: GET_MOEX_NAME_def empty_cache_def demo_name key)
  have bad: "JSON_parse demo_env msg_ticker_not_found =
      Inl (Exn SyntaxError (asc ''Unexpected token''))"
    by (simp add: demo_env_def demo_JSON_parse_def msg_ticker_not_found_def asc_def
        demo_number_def unsigned_number_def is_digit_def)
  have price: "returned (GET_MOEX_PRICE demo_env
         (empty_cache(asc ''A_name'' \<mapsto> msg_ticker_not_found)) None (asc ''A_name'')) =
       Inl (Exn SyntaxError (asc ''Unexpected token''))"
    using nb by (simp add: GET_MOEX_PRICE_def bad)
  have uri: "fetchSinglePriceInternal demo_env [55296] =
       ([], Inl (Exn URIError (asc ''URI malformed'')))"
    by (simp add: fetchSinglePriceInternal_def throw_def demo_env_def)
  from name price uri show ?thesis by simp
qed

end
